theory Spec2Isabelle
  imports Main "HOL-Library.AList"
begin

section \<open>The backtracking scheduler (scheduler.py): data model\<close>

text \<open>
  The dataclasses of scheduler.py as records. Field names that occur in more than one
  dataclass carry a prefix (a record field is a global constant).
\<close>

record CourseKind =
  ktype :: string
  klength :: int
  lab_type :: "string option"
  max_sections_together :: int
  ignore_capacity :: bool

record Course =
  course_id :: string
  cname :: string
  cyear :: int
  major :: "string option"
  kinds :: "CourseKind list"
  full_year :: bool
  is_project :: bool

record Room =
  room_id :: string
  rtype :: string
  capacity :: int
  building :: string

record Instructor =
  instr_id :: string
  iname :: string
  role :: string
  qualified_courses :: "string list"

record Group =
  group_id :: string
  gyear :: int
  specialization :: "string option"
  sections_count :: int
  students_count :: int

record Section =
  section_id :: string
  s_group_id :: string
  s_students_count :: int

record Assignment =
  a_course_id :: string
  a_session_type :: string
  a_day :: int
  a_period :: int
  a_sections :: "string list"
  a_duration :: int
  a_instructor_id :: string
  a_room_id :: string

text \<open>
  The mutable attributes of \<open>BacktrackingScheduler\<close>. \<open>timetable\<close> is a dict keyed by
  (section, day, period); a dict keeps its entries in insertion order, so it is an
  association list with one entry per key: \<open>d[k] = v\<close> is \<open>AList.update\<close> (replace in
  place, or append), \<open>del d[k]\<close> is \<open>AList.delete\<close>, \<open>k in d\<close> is \<open>map_of d k \<noteq> None\<close>.
  The busy sets hold (id, day, period) triples. \<open>scheduled_sessions\<close> is a
  \<open>defaultdict(set)\<close>: a missing key reads as the empty set.
\<close>

type_synonym cell = "string \<times> int \<times> int"

record state =
  timetable :: "(cell \<times> Assignment) list"
  instructor_busy :: "cell set"
  room_busy :: "cell set"
  scheduled_sessions :: "(string \<times> (string \<times> string) set) list"
  attempts :: nat
  backtracks :: nat

text \<open>\<open>scheduled_sessions[sid]\<close>\<close>

definition sessions_of :: "(string \<times> (string \<times> string) set) list \<Rightarrow> string \<Rightarrow> (string \<times> string) set" where
  "sessions_of ss sid = (case map_of ss sid of None \<Rightarrow> {} | Some S \<Rightarrow> S)"

definition DAYS :: int where
  "DAYS = 5"

definition PERIODS_PER_DAY :: int where
  "PERIODS_PER_DAY = 8"

definition init_state :: state where
  "init_state = \<lparr>timetable = [], instructor_busy = {}, room_busy = {},
     scheduled_sessions = [], attempts = 0, backtracks = 0\<rparr>"

text \<open>Python's \<open>range(a, b)\<close> over integers.\<close>

definition py_range :: "int \<Rightarrow> int \<Rightarrow> int list" where
  "py_range a b = [a..b - 1]"

subsection \<open>\<open>_is_valid_assignment\<close>, \<open>_place_assignment\<close>, \<open>_remove_assignment\<close>\<close>

definition is_valid_assignment ::
  "state \<Rightarrow> string list \<Rightarrow> int \<Rightarrow> int \<Rightarrow> int \<Rightarrow> string \<Rightarrow> string \<Rightarrow> bool" where
  "is_valid_assignment st secs d p dur instr room =
     (if dur = 2 \<and> p mod 2 \<noteq> 0 then False
      else if p + dur > PERIODS_PER_DAY then False
      else if list_ex (\<lambda>sid. list_ex (\<lambda>q. map_of (timetable st) (sid, d, q) \<noteq> None) (py_range p (p + dur))) secs
        then False
      else if list_ex (\<lambda>q. (instr, d, q) \<in> instructor_busy st) (py_range p (p + dur)) then False
      else if room \<noteq> ''N/A'' \<and> list_ex (\<lambda>q. (room, d, q) \<in> room_busy st) (py_range p (p + dur))
        then False
      else True)"

text \<open>
  \<open>_place_assignment\<close>. Each \<open>for\<close> loop is a recursive function over the list it
  iterates. The inner loop over the sections that records the session type runs once
  for every section of the outer loop.
\<close>

fun place_cells ::
  "Assignment \<Rightarrow> string \<Rightarrow> int list \<Rightarrow> (cell \<times> Assignment) list \<Rightarrow> (cell \<times> Assignment) list" where
  "place_cells a sid [] tt = tt"
| "place_cells a sid (q # qs) tt = place_cells a sid qs (AList.update (sid, a_day a, q) a tt)"

fun mark_scheduled ::
  "Assignment \<Rightarrow> string list \<Rightarrow> (string \<times> (string \<times> string) set) list \<Rightarrow>
   (string \<times> (string \<times> string) set) list" where
  "mark_scheduled a [] ss = ss"
| "mark_scheduled a (sid # sids) ss =
     mark_scheduled a sids
       (AList.update sid (insert (a_course_id a, a_session_type a) (sessions_of ss sid)) ss)"

fun place_sections :: "Assignment \<Rightarrow> string list \<Rightarrow> state \<Rightarrow> state" where
  "place_sections a [] st = st"
| "place_sections a (sid # sids) st =
     place_sections a sids
       (st\<lparr>timetable := place_cells a sid (py_range (a_period a) (a_period a + a_duration a))
                           (timetable st),
           scheduled_sessions := mark_scheduled a (a_sections a) (scheduled_sessions st)\<rparr>)"

fun place_busy :: "Assignment \<Rightarrow> int list \<Rightarrow> state \<Rightarrow> state" where
  "place_busy a [] st = st"
| "place_busy a (q # qs) st =
     place_busy a qs
       (st\<lparr>instructor_busy := insert (a_instructor_id a, a_day a, q) (instructor_busy st),
           room_busy := (if a_room_id a \<noteq> ''N/A''
                         then insert (a_room_id a, a_day a, q) (room_busy st)
                         else room_busy st)\<rparr>)"

definition place_assignment :: "state \<Rightarrow> Assignment \<Rightarrow> state" where
  "place_assignment st a =
     place_busy a (py_range (a_period a) (a_period a + a_duration a))
       (place_sections a (a_sections a) st)"

text \<open>\<open>_remove_assignment\<close>, loop by loop in the same way.\<close>

fun remove_cells ::
  "Assignment \<Rightarrow> string \<Rightarrow> int list \<Rightarrow> (cell \<times> Assignment) list \<Rightarrow> (cell \<times> Assignment) list" where
  "remove_cells a sid [] tt = tt"
| "remove_cells a sid (q # qs) tt =
     remove_cells a sid qs
       (if map_of tt (sid, a_day a, q) \<noteq> None then AList.delete (sid, a_day a, q) tt else tt)"

fun unmark_scheduled ::
  "Assignment \<Rightarrow> string list \<Rightarrow> (string \<times> (string \<times> string) set) list \<Rightarrow>
   (string \<times> (string \<times> string) set) list" where
  "unmark_scheduled a [] ss = ss"
| "unmark_scheduled a (sid # sids) ss =
     unmark_scheduled a sids
       (AList.update sid (sessions_of ss sid - {(a_course_id a, a_session_type a)}) ss)"

fun remove_sections :: "Assignment \<Rightarrow> string list \<Rightarrow> state \<Rightarrow> state" where
  "remove_sections a [] st = st"
| "remove_sections a (sid # sids) st =
     remove_sections a sids
       (st\<lparr>timetable := remove_cells a sid (py_range (a_period a) (a_period a + a_duration a))
                           (timetable st),
           scheduled_sessions := unmark_scheduled a (a_sections a) (scheduled_sessions st)\<rparr>)"

fun remove_busy :: "Assignment \<Rightarrow> int list \<Rightarrow> state \<Rightarrow> state" where
  "remove_busy a [] st = st"
| "remove_busy a (q # qs) st =
     remove_busy a qs
       (st\<lparr>instructor_busy := instructor_busy st - {(a_instructor_id a, a_day a, q)},
           room_busy := (if a_room_id a \<noteq> ''N/A''
                         then room_busy st - {(a_room_id a, a_day a, q)}
                         else room_busy st)\<rparr>)"

definition remove_assignment :: "state \<Rightarrow> Assignment \<Rightarrow> state" where
  "remove_assignment st a =
     remove_busy a (py_range (a_period a) (a_period a + a_duration a))
       (remove_sections a (a_sections a) st)"

subsection \<open>Input document and \<open>__init__\<close>\<close>

text \<open>
  The input document is the same for both programs. A kind and a course are kept as the
  dicts they arrive as: an optional key is an \<open>option\<close> (\<open>None\<close> when the key is absent).
  Rooms, instructors, groups and sections are passed to the dataclasses unchanged
  (\<open>Room(**r)\<close> and so on), so their records are used directly.
\<close>

record kind_in =
  in_type :: string
  in_length :: "int option"
  in_lab_type :: "string option"
  in_sessions_per_week :: "int option"
  in_max_sections_together :: "int option"
  in_ignore_capacity :: "bool option"

record course_in =
  in_course_id :: string
  in_name :: string
  in_year :: int
  in_major :: "string option"
  in_kinds :: "kind_in list"
  in_full_year :: "bool option"
  in_is_project :: "bool option"

record data_in =
  d_rooms :: "Room list"
  d_instructors :: "Instructor list"
  d_groups :: "Group list"
  d_sections :: "Section list"
  d_courses :: "course_in list"

datatype py_error = KeyError | IndexError | ZeroDivisionError | ValueError | TypeError

text \<open>\<open>dict.get(key, default)\<close>.\<close>

definition dict_get :: "'a option \<Rightarrow> 'a \<Rightarrow> 'a" where
  "dict_get v dflt = (case v of None \<Rightarrow> dflt | Some x \<Rightarrow> x)"

text \<open>
  \<open>CourseKind(type=k['type'], length=k['length'], lab_type=k.get('lab_type'), ...)\<close>:
  \<open>k['length']\<close> raises KeyError when the key is absent; \<open>sessions_per_week\<close> is not read.
\<close>

definition parse_kind :: "kind_in \<Rightarrow> py_error + CourseKind" where
  "parse_kind k =
     (case in_length k of
        None \<Rightarrow> Inl KeyError
      | Some l \<Rightarrow> Inr \<lparr>ktype = in_type k, klength = l, lab_type = in_lab_type k,
                       max_sections_together = dict_get (in_max_sections_together k) 1,
                       ignore_capacity = dict_get (in_ignore_capacity k) False\<rparr>)"

fun parse_kinds :: "kind_in list \<Rightarrow> py_error + CourseKind list" where
  "parse_kinds [] = Inr []"
| "parse_kinds (k # ks) =
     (case parse_kind k of
        Inl e \<Rightarrow> Inl e
      | Inr k' \<Rightarrow> (case parse_kinds ks of Inl e \<Rightarrow> Inl e | Inr ks' \<Rightarrow> Inr (k' # ks')))"

definition parse_course :: "course_in \<Rightarrow> py_error + Course" where
  "parse_course c =
     (case parse_kinds (in_kinds c) of
        Inl e \<Rightarrow> Inl e
      | Inr ks \<Rightarrow> Inr \<lparr>course_id = in_course_id c, cname = in_name c, cyear = in_year c,
                        major = in_major c, kinds = ks,
                        full_year = dict_get (in_full_year c) False,
                        is_project = dict_get (in_is_project c) False\<rparr>)"

fun parse_courses :: "course_in list \<Rightarrow> py_error + Course list" where
  "parse_courses [] = Inr []"
| "parse_courses (c # cs) =
     (case parse_course c of
        Inl e \<Rightarrow> Inl e
      | Inr c' \<Rightarrow> (case parse_courses cs of Inl e \<Rightarrow> Inl e | Inr cs' \<Rightarrow> Inr (c' # cs')))"

text \<open>The immutable attributes of a \<open>BacktrackingScheduler\<close>.\<close>

record scheduler =
  rooms :: "Room list"
  instructors :: "Instructor list"
  groups :: "Group list"
  sections :: "Section list"
  courses :: "Course list"

definition init_scheduler :: "data_in \<Rightarrow> py_error + scheduler" where
  "init_scheduler data =
     (case parse_courses (d_courses data) of
        Inl e \<Rightarrow> Inl e
      | Inr cs \<Rightarrow> Inr \<lparr>rooms = d_rooms data, instructors = d_instructors data,
                        groups = d_groups data, sections = d_sections data, courses = cs\<rparr>)"

subsection \<open>\<open>_build_indexes\<close>\<close>

text \<open>
  A dict comprehension keeps the last entry of a repeated key; \<open>map_of\<close> returns the
  first, hence the \<open>rev\<close>.
\<close>

definition group_by_id :: "scheduler \<Rightarrow> string \<rightharpoonup> Group" where
  "group_by_id sch = map_of (rev (map (\<lambda>g. (group_id g, g)) (groups sch)))"

definition section_by_id :: "scheduler \<Rightarrow> string \<rightharpoonup> Section" where
  "section_by_id sch = map_of (rev (map (\<lambda>s. (section_id s, s)) (sections sch)))"

definition sections_by_group :: "scheduler \<Rightarrow> string \<Rightarrow> Section list" where
  "sections_by_group sch gid = filter (\<lambda>s. s_group_id s = gid) (sections sch)"

definition sections_by_year :: "scheduler \<Rightarrow> int \<Rightarrow> Section list" where
  "sections_by_year sch y =
     concat (map (\<lambda>g. sections_by_group sch (group_id g)) (filter (\<lambda>g. gyear g = y) (groups sch)))"

subsection \<open>\<open>_get_qualified_instructors\<close> and \<open>_get_suitable_rooms\<close>\<close>

fun qualified_loop :: "Instructor list \<Rightarrow> string \<Rightarrow> string \<Rightarrow> string list" where
  "qualified_loop [] cid stype = []"
| "qualified_loop (instr # rest) cid stype =
     (if cid \<notin> set (qualified_courses instr) then qualified_loop rest cid stype
      else if stype = ''Lecture'' \<and> role instr = ''Professor''
        then instr_id instr # qualified_loop rest cid stype
      else if stype \<in> set [''Tut'', ''Lab''] \<and> role instr = ''TA''
        then instr_id instr # qualified_loop rest cid stype
      else qualified_loop rest cid stype)"

definition get_qualified_instructors :: "scheduler \<Rightarrow> string \<Rightarrow> string \<Rightarrow> string list" where
  "get_qualified_instructors sch cid stype = qualified_loop (instructors sch) cid stype"

text \<open>Truthiness of an optional string: \<open>None\<close> and the empty string are false.\<close>

definition truthy_str :: "string option \<Rightarrow> bool" where
  "truthy_str v = (case v of None \<Rightarrow> False | Some x \<Rightarrow> x \<noteq> [])"

fun suitable_loop :: "Room list \<Rightarrow> string \<Rightarrow> int \<Rightarrow> string option \<Rightarrow> bool \<Rightarrow> string list" where
  "suitable_loop [] stype n lab ign = []"
| "suitable_loop (room # rest) stype n lab ign =
     (if \<not> ign \<and> capacity room < n then suitable_loop rest stype n lab ign
      else if stype = ''Lab'' then
        (if truthy_str lab \<and> Some (rtype room) = lab
         then room_id room # suitable_loop rest stype n lab ign
         else suitable_loop rest stype n lab ign)
      else if stype = ''Lecture'' then
        (if ign then
           (if rtype room = ''theater''
            then room_id room # suitable_loop rest stype n lab ign
            else suitable_loop rest stype n lab ign)
         else
           (if rtype room \<in> set [''classroom'', ''theater'']
            then room_id room # suitable_loop rest stype n lab ign
            else suitable_loop rest stype n lab ign))
      else if stype = ''Tut'' then
        (if rtype room = ''classroom''
         then room_id room # suitable_loop rest stype n lab ign
         else suitable_loop rest stype n lab ign)
      else suitable_loop rest stype n lab ign)"

definition get_suitable_rooms :: "scheduler \<Rightarrow> string \<Rightarrow> int \<Rightarrow> string option \<Rightarrow> bool \<Rightarrow> string list" where
  "get_suitable_rooms sch stype n lab ign = suitable_loop (rooms sch) stype n lab ign"

subsection \<open>\<open>_get_target_sections\<close> and \<open>_get_all_sessions_to_schedule\<close>\<close>

text \<open>
  The list comprehensions over \<open>self.sections\<close> evaluate \<open>self.group_by_id[s.group_id]\<close>
  for every section, so a section of an unknown group raises KeyError.
\<close>

definition eligible_sections :: "scheduler \<Rightarrow> Course \<Rightarrow> py_error + Section list" where
  "eligible_sections sch c =
     (if list_ex (\<lambda>s. group_by_id sch (s_group_id s) = None) (sections sch) then Inl KeyError
      else Inr (filter (\<lambda>s. case group_by_id sch (s_group_id s) of
                               None \<Rightarrow> False
                             | Some g \<Rightarrow> gyear g = cyear c \<and> (major c = None \<or> specialization g = major c))
                  (sections sch)))"

text \<open>The "smart grouping" loop of the Lab branch: the finished bundles and the open one.\<close>

fun lab_loop :: "int \<Rightarrow> string list \<Rightarrow> string list list \<Rightarrow> string list \<Rightarrow> string list list \<times> string list" where
  "lab_loop m [] grps cur = (grps, cur)"
| "lab_loop m (sid # rest) grps cur =
     (if int (length cur) < m then lab_loop m rest grps (cur @ [sid])
      else lab_loop m rest (grps @ [cur]) [sid])"

definition lab_groups :: "int \<Rightarrow> string list \<Rightarrow> string list list" where
  "lab_groups m sids =
     (case lab_loop m sids [] [] of
        (grps, cur) \<Rightarrow>
          (let grps' = (if cur \<noteq> [] then grps @ [cur] else grps)
           in if grps' \<noteq> [] then grps' else map (\<lambda>sid. [sid]) sids))"

definition get_target_sections :: "scheduler \<Rightarrow> Course \<Rightarrow> CourseKind \<Rightarrow> Section \<Rightarrow> py_error + string list list" where
  "get_target_sections sch c k reference_section =
     (if is_project c then Inr [map section_id (sections_by_group sch (s_group_id reference_section))]
      else if full_year c then
        (if ktype k = ''Lecture'' then Inr [map section_id (sections_by_year sch (cyear c))]
         else if ktype k = ''Lab'' then Inr [map section_id (sections_by_year sch (cyear c))]
         else Inr (map (\<lambda>s. [section_id s]) (sections_by_year sch (cyear c))))
      else if ktype k = ''Lecture'' then
        Inr (map (\<lambda>g. map section_id (sections_by_group sch (group_id g)))
               (filter (\<lambda>g. gyear g = cyear c \<and> (major c = None \<or> specialization g = major c))
                  (groups sch)))
      else if ktype k = ''Tut'' then
        (case eligible_sections sch c of
           Inl e \<Rightarrow> Inl e
         | Inr ss \<Rightarrow> Inr (map (\<lambda>s. [section_id s]) ss))
      else if ktype k = ''Lab'' then
        (case eligible_sections sch c of
           Inl e \<Rightarrow> Inl e
         | Inr ss \<Rightarrow> Inr (lab_groups (max_sections_together k) (map section_id ss)))
      else Inr [])"

type_synonym session = "Course \<times> CourseKind \<times> string list"

fun kinds_sessions :: "scheduler \<Rightarrow> Course \<Rightarrow> CourseKind list \<Rightarrow> py_error + session list" where
  "kinds_sessions sch c [] = Inr []"
| "kinds_sessions sch c (k # ks) =
     (case sections sch of
        [] \<Rightarrow> Inl IndexError
      | reference_section # _ \<Rightarrow>
          (case get_target_sections sch c k reference_section of
             Inl e \<Rightarrow> Inl e
           | Inr target_groups \<Rightarrow>
               (case kinds_sessions sch c ks of
                  Inl e \<Rightarrow> Inl e
                | Inr others \<Rightarrow> Inr (map (\<lambda>grp. (c, k, grp)) target_groups @ others))))"

fun courses_sessions :: "scheduler \<Rightarrow> Course list \<Rightarrow> py_error + session list" where
  "courses_sessions sch [] = Inr []"
| "courses_sessions sch (c # cs) =
     (case kinds_sessions sch c (kinds c) of
        Inl e \<Rightarrow> Inl e
      | Inr ss \<Rightarrow> (case courses_sessions sch cs of Inl e \<Rightarrow> Inl e | Inr others \<Rightarrow> Inr (ss @ others)))"

definition get_all_sessions_to_schedule :: "scheduler \<Rightarrow> py_error + session list" where
  "get_all_sessions_to_schedule sch = courses_sessions sch (courses sch)"

subsection \<open>Strategy 2: \<open>solve_by_course\<close>\<close>

text \<open>
  The four nested loops over day, period, instructor and room enumerate the candidates
  in this order. \<open>try_placements\<close> is the body of the innermost loop up to the recursive
  call \<open>k\<close>, which is \<open>solve_by_course(session_idx + 1, all_sessions)\<close>;
  \<open>resume_placements\<close> is what the loop does once that call has returned: return
  \<open>True\<close>, or count a backtrack, remove the assignment and go on with the next candidate.
  The state that a failed recursive call leaves behind is the one the loop continues with.
\<close>

definition candidates :: "string list \<Rightarrow> string list \<Rightarrow> (int \<times> int \<times> string \<times> string) list" where
  "candidates qualified suitable =
     concat (map (\<lambda>d. concat (map (\<lambda>p. concat (map (\<lambda>i. map (\<lambda>r. (d, p, i, r)) suitable) qualified))
                                 (py_range 0 PERIODS_PER_DAY)))
               (py_range 0 DAYS))"

text \<open>The \<open>Assignment(...)\<close> that the loop body constructs.\<close>

definition new_assignment ::
  "string \<Rightarrow> string \<Rightarrow> string list \<Rightarrow> int \<Rightarrow> int \<Rightarrow> int \<Rightarrow> string \<Rightarrow> string \<Rightarrow> Assignment" where
  "new_assignment cid stype secs dur d p i r =
     \<lparr>a_course_id = cid, a_session_type = stype, a_day = d, a_period = p,
      a_sections = secs, a_duration = dur, a_instructor_id = i, a_room_id = r\<rparr>"

fun try_placements ::
  "(state \<Rightarrow> bool \<times> state) \<Rightarrow> string \<Rightarrow> string \<Rightarrow> string list \<Rightarrow> int \<Rightarrow> state \<Rightarrow>
   (int \<times> int \<times> string \<times> string) list \<Rightarrow> bool \<times> state"
and resume_placements ::
  "(state \<Rightarrow> bool \<times> state) \<Rightarrow> string \<Rightarrow> string \<Rightarrow> string list \<Rightarrow> int \<Rightarrow> Assignment \<Rightarrow>
   (int \<times> int \<times> string \<times> string) list \<Rightarrow> bool \<times> state \<Rightarrow> bool \<times> state" where
  "try_placements k cid stype secs dur st [] = (False, st)"
| "try_placements k cid stype secs dur st ((d, p, i, r) # rest) =
     (if \<not> is_valid_assignment (st\<lparr>attempts := attempts st + 1\<rparr>) secs d p dur i r
      then try_placements k cid stype secs dur (st\<lparr>attempts := attempts st + 1\<rparr>) rest
      else resume_placements k cid stype secs dur (new_assignment cid stype secs dur d p i r) rest
             (k (place_assignment (st\<lparr>attempts := attempts st + 1\<rparr>)
                   (new_assignment cid stype secs dur d p i r))))"
| "resume_placements k cid stype secs dur a rest (ok, st3) =
     (if ok then (True, st3)
      else try_placements k cid stype secs dur
             (remove_assignment (st3\<lparr>backtracks := backtracks st3 + 1\<rparr>) a) rest)"

text \<open>
  The room list of a session: the placeholder \<open>["N/A"]\<close> for a course with
  \<open>is_project\<close>, the suitable rooms otherwise.
\<close>

definition session_rooms :: "scheduler \<Rightarrow> Course \<Rightarrow> CourseKind \<Rightarrow> int \<Rightarrow> string list" where
  "session_rooms sch c k n_students =
     (if is_project c then [''N/A'']
      else get_suitable_rooms sch (ktype k) n_students (lab_type k) (ignore_capacity k))"

definition students_of :: "scheduler \<Rightarrow> string list \<Rightarrow> int" where
  "students_of sch secs =
     sum_list (map (\<lambda>sid. case section_by_id sch sid of None \<Rightarrow> 0 | Some s \<Rightarrow> s_students_count s) secs)"

text \<open>
  \<open>solve_by_course\<close> on the sessions from index \<open>session_idx\<close> on, i.e. on
  \<open>all_sessions[session_idx:]\<close>. The target sections of a session are section ids of
  \<open>self.sections\<close>, so \<open>self.section_by_id[sid]\<close> does not raise.
\<close>

primrec solve_by_course :: "scheduler \<Rightarrow> session list \<Rightarrow> state \<Rightarrow> bool \<times> state" where
  "solve_by_course sch [] = (\<lambda>st. (True, st))"
| "solve_by_course sch (s # rest) =
     (\<lambda>st. case s of
        (c, k, target_sections) \<Rightarrow>
          if list_all (\<lambda>sid. (course_id c, ktype k) \<in> sessions_of (scheduled_sessions st) sid) target_sections
          then solve_by_course sch rest st
          else
            (let students_count = students_of sch target_sections;
                 qualified = get_qualified_instructors sch (course_id c) (ktype k)
             in if qualified = [] then (False, st)
                else
                  (let suitable = session_rooms sch c k students_count
                   in if suitable = [] then (False, st)
                      else try_placements (solve_by_course sch rest) (course_id c) (ktype k)
                             target_sections (klength k div 45) st
                             (candidates qualified suitable))))"

subsection \<open>Strategy 1: \<open>solve_by_section\<close>\<close>

text \<open>
  What a call of \<open>solve_by_section\<close> does: it returns a Boolean, an exception leaves it,
  or the model's recursion budget is used up. A loop inside the function either returns
  from the function (\<open>Some\<close>) or runs to its end (\<open>None\<close>).
\<close>

datatype outcome = OutOfFuel | Raised py_error state | Returned bool state

definition eligible_courses :: "scheduler \<Rightarrow> Section \<Rightarrow> py_error + Course list" where
  "eligible_courses sch section =
     (case group_by_id sch (s_group_id section) of
        None \<Rightarrow> if courses sch = [] then Inr [] else Inl KeyError
      | Some g \<Rightarrow> Inr (filter (\<lambda>c. cyear c = gyear g \<and> (major c = None \<or> major c = specialization g))
                         (courses sch)))"

definition is_course_complete_for_section :: "state \<Rightarrow> Course \<Rightarrow> string \<Rightarrow> bool" where
  "is_course_complete_for_section st c sid =
     list_all (\<lambda>k. (course_id c, ktype k) \<in> sessions_of (scheduled_sessions st) sid) (kinds c)"

text \<open>
  The four nested loops of \<open>solve_by_section\<close>, in the same two parts; \<open>k\<close> is
  \<open>self.solve_by_section(section_idx)\<close>.
\<close>

fun section_placements ::
  "(state \<Rightarrow> outcome) \<Rightarrow> string \<Rightarrow> string \<Rightarrow> string list \<Rightarrow> int \<Rightarrow> state \<Rightarrow>
   (int \<times> int \<times> string \<times> string) list \<Rightarrow> outcome"
and resume_section ::
  "(state \<Rightarrow> outcome) \<Rightarrow> string \<Rightarrow> string \<Rightarrow> string list \<Rightarrow> int \<Rightarrow> Assignment \<Rightarrow>
   (int \<times> int \<times> string \<times> string) list \<Rightarrow> outcome \<Rightarrow> outcome" where
  "section_placements k cid stype secs dur st [] = Returned False st"
| "section_placements k cid stype secs dur st ((d, p, i, r) # rest) =
     (if \<not> is_valid_assignment (st\<lparr>attempts := attempts st + 1\<rparr>) secs d p dur i r
      then section_placements k cid stype secs dur (st\<lparr>attempts := attempts st + 1\<rparr>) rest
      else resume_section k cid stype secs dur (new_assignment cid stype secs dur d p i r) rest
             (k (place_assignment (st\<lparr>attempts := attempts st + 1\<rparr>)
                   (new_assignment cid stype secs dur d p i r))))"
| "resume_section k cid stype secs dur a rest OutOfFuel = OutOfFuel"
| "resume_section k cid stype secs dur a rest (Raised e st3) = Raised e st3"
| "resume_section k cid stype secs dur a rest (Returned ok st3) =
     (if ok then Returned True st3
      else section_placements k cid stype secs dur
             (remove_assignment (st3\<lparr>backtracks := backtracks st3 + 1\<rparr>) a) rest)"

text \<open>The loop over the kinds of one course; \<open>rec\<close> is the recursive call.\<close>

fun section_kinds ::
  "(nat \<Rightarrow> state \<Rightarrow> outcome) \<Rightarrow> scheduler \<Rightarrow> nat \<Rightarrow> Section \<Rightarrow> Course \<Rightarrow> state \<Rightarrow>
   CourseKind list \<Rightarrow> outcome option" where
  "section_kinds rec sch idx section c st [] = None"
| "section_kinds rec sch idx section c st (k # ks) =
     (if (course_id c, ktype k) \<in> sessions_of (scheduled_sessions st) (section_id section)
      then section_kinds rec sch idx section c st ks
      else
        (case get_target_sections sch c k section of
           Inl e \<Rightarrow> Some (Raised e st)
         | Inr target_groups \<Rightarrow>
             (case filter (\<lambda>grp. section_id section \<in> set grp) target_groups of
                [] \<Rightarrow> section_kinds rec sch idx section c st ks
              | target_sections # _ \<Rightarrow>
                  if target_sections = [] then section_kinds rec sch idx section c st ks
                  else if list_all (\<lambda>sid. (course_id c, ktype k) \<in> sessions_of (scheduled_sessions st) sid)
                            target_sections
                  then Some (rec idx (st\<lparr>scheduled_sessions :=
                          AList.update (section_id section)
                            (insert (course_id c, ktype k)
                               (sessions_of (scheduled_sessions st) (section_id section)))
                            (scheduled_sessions st)\<rparr>))
                  else
                    (let students_count = students_of sch target_sections;
                         qualified = get_qualified_instructors sch (course_id c) (ktype k)
                     in if qualified = [] then Some (Returned False st)
                        else
                          (let suitable = session_rooms sch c k students_count
                           in if suitable = [] then Some (Returned False st)
                              else Some (section_placements (rec idx) (course_id c) (ktype k)
                                           target_sections (klength k div 45) st
                                           (candidates qualified suitable)))))))"

text \<open>The loop over the eligible courses of the section.\<close>

fun section_courses ::
  "(nat \<Rightarrow> state \<Rightarrow> outcome) \<Rightarrow> scheduler \<Rightarrow> nat \<Rightarrow> Section \<Rightarrow> state \<Rightarrow> Course list \<Rightarrow>
   outcome option" where
  "section_courses rec sch idx section st [] = None"
| "section_courses rec sch idx section st (c # cs) =
     (if is_course_complete_for_section st c (section_id section)
      then section_courses rec sch idx section st cs
      else if is_project c then section_courses rec sch idx section st cs
      else (case section_kinds rec sch idx section c st (kinds c) of
              None \<Rightarrow> section_courses rec sch idx section st cs
            | Some r \<Rightarrow> Some r))"

text \<open>
  \<open>solve_by_section(section_idx)\<close>. The first argument bounds the depth of the recursion;
  every recursive call gets one less.
\<close>

primrec solve_by_section :: "scheduler \<Rightarrow> nat \<Rightarrow> nat \<Rightarrow> state \<Rightarrow> outcome" where
  "solve_by_section sch 0 = (\<lambda>section_idx st. OutOfFuel)"
| "solve_by_section sch (Suc fuel) =
     (\<lambda>section_idx st.
        if section_idx \<ge> length (sections sch) then Returned True st
        else
          (let section = sections sch ! section_idx
           in case eligible_courses sch section of
                Inl e \<Rightarrow> Raised e st
              | Inr eligible \<Rightarrow>
                  if list_all (\<lambda>c. is_course_complete_for_section st c (section_id section)) eligible
                  then solve_by_section sch fuel (section_idx + 1) st
                  else
                    (case section_courses (solve_by_section sch fuel) sch section_idx section st eligible of
                       Some r \<Rightarrow> r
                     | None \<Rightarrow> solve_by_section sch fuel (section_idx + 1) st)))"

subsection \<open>\<open>solve\<close> and \<open>schedule_timetable\<close>\<close>

definition solve :: "scheduler \<Rightarrow> string \<Rightarrow> nat \<Rightarrow> outcome" where
  "solve sch strategy fuel =
     (if strategy = ''section'' then solve_by_section sch fuel 0 init_state
      else (case get_all_sessions_to_schedule sch of
              Inl e \<Rightarrow> Raised e init_state
            | Inr all_sessions \<Rightarrow>
                (case solve_by_course sch all_sessions init_state of
                   (ok, st) \<Rightarrow> Returned ok st)))"

text \<open>
  The status of the dict that \<open>schedule_timetable\<close> returns. On success the schedule is
  read off the final timetable: \<open>_extract_solution\<close> emits, for every assignment stored
  in it and every section of the assignment, one record that copies the assignment's
  day, period (\<open>start_period\<close> is \<open>period + 1\<close>), duration, room and instructor. On
  failure the dict has the message \<open>No solution found\<close> and the two counters.
\<close>

datatype bt_status = BT_success state | BT_failed nat nat | BT_error py_error | BT_out_of_fuel

definition schedule_timetable :: "data_in \<Rightarrow> string \<Rightarrow> nat \<Rightarrow> bt_status" where
  "schedule_timetable data strategy fuel =
     (case init_scheduler data of
        Inl e \<Rightarrow> BT_error e
      | Inr sch \<Rightarrow>
          (case solve sch strategy fuel of
             OutOfFuel \<Rightarrow> BT_out_of_fuel
           | Raised e st \<Rightarrow> BT_error e
           | Returned ok st \<Rightarrow> if ok then BT_success st else BT_failed (attempts st) (backtracks st)))"

text \<open>The \<open>status\<close> and \<open>attempts\<close> entries of the returned dict.\<close>

fun status_of :: "bt_status \<Rightarrow> string \<times> nat" where
  "status_of (BT_success st) = (''success'', attempts st)"
| "status_of (BT_failed n m) = (''failed'', n)"
| "status_of (BT_error e) = (''error'', 0)"
| "status_of BT_out_of_fuel = ([], 0)"

text \<open>The timetable a successful run ends with; the schedule is read off it.\<close>

fun timetable_of :: "bt_status \<Rightarrow> (cell \<times> Assignment) list" where
  "timetable_of (BT_success st) = timetable st"
| "timetable_of (BT_failed n m) = []"
| "timetable_of (BT_error e) = []"
| "timetable_of BT_out_of_fuel = []"

section \<open>The constraint-model generator (lastThingIHope.py)\<close>

text \<open>
  Module constants. \<open>DAYS\<close> and \<open>PERIODS_PER_DAY\<close> of this module carry the prefix
  \<open>CP_\<close>: the scheduler class above has attributes of the same names and other values.
\<close>

definition CP_DAYS :: "string list" where
  "CP_DAYS = [''Sunday'', ''Monday'', ''Tuesday'', ''Wednesday'', ''Thursday'']"

definition CP_PERIODS_PER_DAY :: int where
  "CP_PERIODS_PER_DAY = 4"

definition BASE_SLOT_MINUTES :: int where
  "BASE_SLOT_MINUTES = 45"

definition subslots_needed :: "int \<Rightarrow> int \<Rightarrow> py_error + int" where
  "subslots_needed length_min base =
     (if base = 0 then Inl ZeroDivisionError
      else if length_min mod base \<noteq> 0 then Inl ValueError
      else Inr (length_min div base))"

definition valid_room_types_for_session :: "string \<Rightarrow> string list" where
  "valid_room_types_for_session session_type =
     (if session_type = ''Lecture'' then [''classroom'', ''theater'', ''hall'']
      else if session_type = ''Tut'' then [''classroom'', ''computer lab'', ''hall'']
      else if session_type = ''Lab''
        then [''computer lab'', ''electronics lab'', ''physics lab'', ''chemistry lab'', ''bio lab'']
      else if session_type = ''Project'' then [''hall'', ''theater'', ''classroom'']
      else [''classroom''])"

subsection \<open>\<open>generate_instances\<close>\<close>

text \<open>An instance dict; a key that some branch does not set is an \<open>option\<close>.\<close>

record session_instance =
  instance_id :: string
  i_course_id :: string
  i_type :: string
  i_group_id :: "string option"
  i_section_id :: "string option"
  sessions_per_week :: "int option"
  length_minutes :: "int option"
  expected_students :: int
  i_lab_type :: "string option"
  has_instructor :: "bool option"
  i_is_project :: "bool option"

definition cp_target_groups :: "course_in \<Rightarrow> Group list \<Rightarrow> Group list" where
  "cp_target_groups c gs =
     filter (\<lambda>g. gyear g = in_year c \<and> (in_major c = None \<or> specialization g = in_major c)) gs"

definition cp_target_sections :: "Group list \<Rightarrow> Section list \<Rightarrow> Section list" where
  "cp_target_sections tgs ss = filter (\<lambda>s. s_group_id s \<in> set (map group_id tgs)) ss"

text \<open>\<open>klen if (klen and klen >= PERIODS_PER_DAY * 90) else PERIODS_PER_DAY * 90\<close>\<close>

definition project_len :: "int option \<Rightarrow> int" where
  "project_len klen =
     (case klen of
        None \<Rightarrow> CP_PERIODS_PER_DAY * 90
      | Some l \<Rightarrow> if l \<noteq> 0 \<and> l \<ge> CP_PERIODS_PER_DAY * 90 then l else CP_PERIODS_PER_DAY * 90)"

definition project_instance :: "course_in \<Rightarrow> kind_in \<Rightarrow> Group \<Rightarrow> session_instance" where
  "project_instance c k g =
     \<lparr>instance_id = in_course_id c @ ''_'' @ group_id g @ ''_PROJECT'',
      i_course_id = in_course_id c, i_type = ''Project'', i_group_id = Some (group_id g),
      i_section_id = None, sessions_per_week = Some 1,
      length_minutes = Some (project_len (in_length k)),
      expected_students = students_count g, i_lab_type = None,
      has_instructor = Some False, i_is_project = Some True\<rparr>"

definition lecture_instance :: "course_in \<Rightarrow> kind_in \<Rightarrow> Group \<Rightarrow> session_instance" where
  "lecture_instance c k g =
     \<lparr>instance_id = in_course_id c @ ''_'' @ group_id g @ ''_LEC'',
      i_course_id = in_course_id c, i_type = ''Lecture'', i_group_id = Some (group_id g),
      i_section_id = None, sessions_per_week = Some (dict_get (in_sessions_per_week k) 2),
      length_minutes = in_length k,
      expected_students = students_count g, i_lab_type = None,
      has_instructor = None, i_is_project = None\<rparr>"

definition tut_instance :: "course_in \<Rightarrow> kind_in \<Rightarrow> Section \<Rightarrow> session_instance" where
  "tut_instance c k s =
     \<lparr>instance_id = in_course_id c @ ''_'' @ section_id s @ ''_TUT'',
      i_course_id = in_course_id c, i_type = ''Tut'', i_group_id = None,
      i_section_id = Some (section_id s), sessions_per_week = Some (dict_get (in_sessions_per_week k) 1),
      length_minutes = in_length k,
      expected_students = s_students_count s, i_lab_type = None,
      has_instructor = None, i_is_project = None\<rparr>"

definition lab_instance :: "course_in \<Rightarrow> kind_in \<Rightarrow> Section \<Rightarrow> session_instance" where
  "lab_instance c k s =
     \<lparr>instance_id = in_course_id c @ ''_'' @ section_id s @ ''_LAB'',
      i_course_id = in_course_id c, i_type = ''Lab'', i_group_id = None,
      i_section_id = Some (section_id s), sessions_per_week = Some (dict_get (in_sessions_per_week k) 1),
      length_minutes = in_length k,
      expected_students = s_students_count s, i_lab_type = in_lab_type k,
      has_instructor = None, i_is_project = None\<rparr>"

text \<open>The body of the loop over the kinds of one course.\<close>

definition kind_instances :: "course_in \<Rightarrow> kind_in \<Rightarrow> Group list \<Rightarrow> Section list \<Rightarrow> session_instance list" where
  "kind_instances c k tgs tss =
     (if dict_get (in_is_project c) False then map (project_instance c k) tgs
      else if in_type k = ''Lecture'' then map (lecture_instance c k) tgs
      else if in_type k = ''Tut'' then map (tut_instance c k) tss
      else if in_type k = ''Lab'' then map (lab_instance c k) tss
      else [])"

definition course_instances :: "course_in \<Rightarrow> Group list \<Rightarrow> Section list \<Rightarrow> session_instance list" where
  "course_instances c gs ss =
     (let target_groups = cp_target_groups c gs;
          target_sections = cp_target_sections target_groups ss
      in concat (map (\<lambda>k. kind_instances c k target_groups target_sections) (in_kinds c)))"

definition generate_instances :: "course_in list \<Rightarrow> Group list \<Rightarrow> Section list \<Rightarrow> session_instance list" where
  "generate_instances cs gs ss = concat (map (\<lambda>c. course_instances c gs ss) cs)"

subsection \<open>\<open>quick_feasibility_checks\<close>\<close>

text \<open>
  An entry of the \<open>errors\<close> list. Each message starts with the instance id; the
  constructor stands for the message text after it.
\<close>

datatype check_error =
  InvalidLength string "int option"
| LabTypeMissing string
| NoCompatibleRoom string
| NoQualifiedInstructor string

fun error_instance :: "check_error \<Rightarrow> string" where
  "error_instance (InvalidLength i l) = i"
| "error_instance (LabTypeMissing i) = i"
| "error_instance (NoCompatibleRoom i) = i"
| "error_instance (NoQualifiedInstructor i) = i"

record params =
  days :: "string list"
  periods_per_day :: int
  base_slot_minutes :: int

text \<open>The loop over the rooms, up to its \<open>break\<close>; the result is \<open>found_room\<close>.\<close>

fun found_room :: "Room list \<Rightarrow> session_instance \<Rightarrow> bool" where
  "found_room [] inst = False"
| "found_room (r # rest) inst =
     (if rtype r \<notin> set (valid_room_types_for_session (i_type inst)) then found_room rest inst
      else if i_type inst = ''Lab'' \<and> Some (rtype r) \<noteq> i_lab_type inst then found_room rest inst
      else if expected_students inst \<noteq> 0 \<and> capacity r < expected_students inst then found_room rest inst
      else True)"

fun found_instr :: "Instructor list \<Rightarrow> session_instance \<Rightarrow> bool" where
  "found_instr [] inst = False"
| "found_instr (instr # rest) inst =
     (if i_course_id inst \<in> set (qualified_courses instr) then
        (if i_type inst = ''Lecture'' \<and> role instr = ''Professor'' then True
         else if i_type inst \<in> set [''Lab'', ''Tut''] \<and> role instr = ''TA'' then True
         else found_instr rest inst)
      else found_instr rest inst)"

text \<open>
  The loop over the instances. \<open>L % params['base_slot_minutes']\<close> is evaluated only
  when \<open>L\<close> is not \<open>None\<close> and raises ZeroDivisionError for a zero base.
\<close>

fun quick_loop ::
  "Room list \<Rightarrow> Instructor list \<Rightarrow> int \<Rightarrow> session_instance list \<Rightarrow> check_error list \<Rightarrow> py_error + check_error list" where
  "quick_loop rs instrs base [] errors = Inr errors"
| "quick_loop rs instrs base (inst # rest) errors =
     (if length_minutes inst \<noteq> None \<and> base = 0 then Inl ZeroDivisionError
      else
        (let errors1 = (case length_minutes inst of
                          None \<Rightarrow> errors @ [InvalidLength (instance_id inst) None]
                        | Some l \<Rightarrow> if l mod base \<noteq> 0
                                      then errors @ [InvalidLength (instance_id inst) (Some l)]
                                      else errors)
         in if i_type inst = ''Lab'' \<and> \<not> truthy_str (i_lab_type inst)
            then quick_loop rs instrs base rest (errors1 @ [LabTypeMissing (instance_id inst)])
            else
              (let errors2 = (if \<not> found_room rs inst
                              then errors1 @ [NoCompatibleRoom (instance_id inst)] else errors1);
                   errors3 = (if i_type inst \<noteq> ''Project'' \<and> \<not> found_instr instrs inst
                              then errors2 @ [NoQualifiedInstructor (instance_id inst)] else errors2)
               in quick_loop rs instrs base rest errors3)))"

definition quick_feasibility_checks ::
  "Room list \<Rightarrow> Instructor list \<Rightarrow> session_instance list \<Rightarrow> params \<Rightarrow> py_error + check_error list" where
  "quick_feasibility_checks rs instrs insts ps = quick_loop rs instrs (base_slot_minutes ps) insts []"

subsection \<open>\<open>build_and_solve\<close>: occurrences and domains\<close>

definition expand_occurrences :: "session_instance list \<Rightarrow> (session_instance \<times> int) list" where
  "expand_occurrences insts =
     concat (map (\<lambda>inst. map (\<lambda>occ. (inst, occ)) (py_range 0 (dict_get (sessions_per_week inst) 1))) insts)"

text \<open>
  \<open>[s for s in range(0, total_subslots - needed + 1)
        if (s // slots_per_day) == ((s + needed - 1) // slots_per_day)]\<close>;
  the division raises for \<open>slots_per_day = 0\<close> as soon as the range is not empty.
\<close>

definition valid_starts :: "int \<Rightarrow> int \<Rightarrow> int \<Rightarrow> py_error + int list" where
  "valid_starts total_subslots slots_per_day needed =
     (if py_range 0 (total_subslots - needed + 1) \<noteq> [] \<and> slots_per_day = 0 then Inl ZeroDivisionError
      else Inr (filter (\<lambda>s. s div slots_per_day = (s + needed - 1) div slots_per_day)
                  (py_range 0 (total_subslots - needed + 1))))"

fun room_candidates_loop :: "(nat \<times> Room) list \<Rightarrow> session_instance \<Rightarrow> nat list" where
  "room_candidates_loop [] inst = []"
| "room_candidates_loop ((r_idx, r) # rest) inst =
     (if rtype r \<notin> set (valid_room_types_for_session (i_type inst)) then room_candidates_loop rest inst
      else if i_type inst = ''Lab'' \<and> truthy_str (i_lab_type inst) \<and> Some (rtype r) \<noteq> i_lab_type inst
        then room_candidates_loop rest inst
      else if expected_students inst \<noteq> 0 \<and> capacity r < expected_students inst
        then room_candidates_loop rest inst
      else r_idx # room_candidates_loop rest inst)"

definition room_candidates :: "Room list \<Rightarrow> session_instance \<Rightarrow> nat list" where
  "room_candidates rs inst = room_candidates_loop (enumerate 0 rs) inst"

text \<open>The domain of \<open>room_var[idx]\<close>, with the fallback for an empty candidate list.\<close>

definition room_domain :: "Room list \<Rightarrow> session_instance \<Rightarrow> nat list" where
  "room_domain rs inst =
     (if room_candidates rs inst = []
      then (if rs \<noteq> [] then [0..<length rs] else [0])
      else room_candidates rs inst)"

fun instr_candidates_loop :: "(nat \<times> Instructor) list \<Rightarrow> session_instance \<Rightarrow> nat list" where
  "instr_candidates_loop [] inst = []"
| "instr_candidates_loop ((ii, instr) # rest) inst =
     (if i_course_id inst \<in> set (qualified_courses instr) then
        (if i_type inst = ''Lecture'' \<and> role instr = ''Professor'' then [ii] else [])
        @ (if i_type inst \<in> set [''Lab'', ''Tut''] \<and> role instr = ''TA'' then [ii] else [])
        @ instr_candidates_loop rest inst
      else instr_candidates_loop rest inst)"

text \<open>The domain of \<open>instr_var[idx]\<close>; \<open>None\<close> when the occurrence has no instructor variable.\<close>

definition instr_domain :: "Instructor list \<Rightarrow> session_instance \<Rightarrow> nat list option" where
  "instr_domain instrs inst =
     (if i_type inst = ''Project'' \<or> \<not> dict_get (has_instructor inst) True then None
      else (let instr_candidates = instr_candidates_loop (enumerate 0 instrs) inst
            in if instr_candidates \<noteq> [] then Some instr_candidates else None))"

text \<open>
  What \<open>build_and_solve\<close> hands to the CP-SAT model: the occurrences, the number of
  sub-slots each needs, and the domains of the start, room and instructor variables.
\<close>

record cp_model =
  m_occurrences :: "(session_instance \<times> int) list"
  m_needed :: "int list"
  m_start_dom :: "int list list"
  m_room_dom :: "nat list list"
  m_instr_dom :: "nat list option list"
  m_ndays :: int
  m_slots_per_day :: int

text \<open>The variables of one occurrence: (needed, start domain, room domain, instructor domain).\<close>

definition occ_vars ::
  "Room list \<Rightarrow> Instructor list \<Rightarrow> int \<Rightarrow> int \<Rightarrow> int \<Rightarrow> session_instance \<Rightarrow>
   py_error + (int \<times> int list \<times> nat list \<times> nat list option)" where
  "occ_vars rs instrs base slots_per_day total_subslots inst =
     (case length_minutes inst of
        None \<Rightarrow> Inl TypeError
      | Some l \<Rightarrow>
          (case subslots_needed l base of
             Inl e \<Rightarrow> Inl e
           | Inr needed \<Rightarrow>
               (case valid_starts total_subslots slots_per_day needed of
                  Inl e \<Rightarrow> Inl e
                | Inr starts \<Rightarrow> Inr (needed, starts, room_domain rs inst, instr_domain instrs inst))))"

fun build_vars ::
  "Room list \<Rightarrow> Instructor list \<Rightarrow> int \<Rightarrow> int \<Rightarrow> int \<Rightarrow> (session_instance \<times> int) list \<Rightarrow>
   py_error + (int \<times> int list \<times> nat list \<times> nat list option) list" where
  "build_vars rs instrs base spd tot [] = Inr []"
| "build_vars rs instrs base spd tot ((inst, occ) # rest) =
     (case occ_vars rs instrs base spd tot inst of
        Inl e \<Rightarrow> Inl e
      | Inr v \<Rightarrow> (case build_vars rs instrs base spd tot rest of
                     Inl e \<Rightarrow> Inl e
                   | Inr vs \<Rightarrow> Inr (v # vs)))"

definition build_model ::
  "Room list \<Rightarrow> Instructor list \<Rightarrow> session_instance list \<Rightarrow> params \<Rightarrow> py_error + cp_model" where
  "build_model rs instrs insts ps =
     (if base_slot_minutes ps = 0 then Inl ZeroDivisionError
      else
        (let slots_per_day = periods_per_day ps * (90 div base_slot_minutes ps);
             total_subslots = int (length (days ps)) * slots_per_day;
             occurrences = expand_occurrences insts
         in case build_vars rs instrs (base_slot_minutes ps) slots_per_day total_subslots occurrences of
              Inl e \<Rightarrow> Inl e
            | Inr vs \<Rightarrow>
                Inr \<lparr>m_occurrences = occurrences,
                     m_needed = map fst vs,
                     m_start_dom = map (\<lambda>v. fst (snd v)) vs,
                     m_room_dom = map (\<lambda>v. fst (snd (snd v))) vs,
                     m_instr_dom = map (\<lambda>v. snd (snd (snd v))) vs,
                     m_ndays = int (length (days ps)),
                     m_slots_per_day = slots_per_day\<rparr>))"

subsection \<open>\<open>build_and_solve\<close>: the constraints\<close>

text \<open>
  A value for every variable of the model. The Boolean variables \<open>same_room\<close>,
  \<open>same_day\<close>, \<open>same_instr\<close>, \<open>i_before_j\<close> and \<open>j_before_i\<close> are each tied to their
  condition in both directions (\<open>OnlyEnforceIf(b)\<close> and \<open>OnlyEnforceIf(b.Not())\<close>), so a
  solution fixes them and they are replaced by their conditions below.
\<close>

record solution =
  sol_start :: "int list"
  sol_room :: "nat list"
  sol_instr :: "nat option list"
  sol_day :: "int list"

definition share_students :: "session_instance \<Rightarrow> session_instance \<Rightarrow> bool" where
  "share_students inst_i inst_j =
     ((truthy_str (i_group_id inst_i) \<and> truthy_str (i_group_id inst_j) \<and> i_group_id inst_i = i_group_id inst_j)
      \<or> (truthy_str (i_section_id inst_i) \<and> truthy_str (i_section_id inst_j)
          \<and> i_section_id inst_i = i_section_id inst_j))"

text \<open>\<open>i_before_j or j_before_i\<close>\<close>

definition no_overlap :: "int \<Rightarrow> int \<Rightarrow> int \<Rightarrow> int \<Rightarrow> bool" where
  "no_overlap start_i len_i start_j len_j = (start_i + len_i \<le> start_j \<or> start_j + len_j \<le> start_i)"

text \<open>
  The domains of the variables of occurrence \<open>idx\<close>, and the table
  \<open>AddAllowedAssignments([start[idx], day_var[idx]], pairs)\<close>.
\<close>

definition var_constraints :: "cp_model \<Rightarrow> solution \<Rightarrow> nat \<Rightarrow> bool" where
  "var_constraints m sol idx =
     (sol_start sol ! idx \<in> set (m_start_dom m ! idx)
      \<and> sol_room sol ! idx \<in> set (m_room_dom m ! idx)
      \<and> (case m_instr_dom m ! idx of
            None \<Rightarrow> sol_instr sol ! idx = None
          | Some d \<Rightarrow> (case sol_instr sol ! idx of None \<Rightarrow> False | Some v \<Rightarrow> v \<in> set d))
      \<and> 0 \<le> sol_day sol ! idx \<and> sol_day sol ! idx \<le> m_ndays m - 1
      \<and> sol_day sol ! idx = sol_start sol ! idx div m_slots_per_day m)"

text \<open>The body of the loop over the pairs \<open>i < j\<close>.\<close>

definition pair_constraints :: "cp_model \<Rightarrow> solution \<Rightarrow> nat \<Rightarrow> nat \<Rightarrow> bool" where
  "pair_constraints m sol i j =
     (let inst_i = fst (m_occurrences m ! i); inst_j = fst (m_occurrences m ! j);
          free = no_overlap (sol_start sol ! i) (m_needed m ! i) (sol_start sol ! j) (m_needed m ! j);
          same_room = (sol_room sol ! i = sol_room sol ! j);
          same_day = (sol_day sol ! i = sol_day sol ! j);
          same_instr = (sol_instr sol ! i = sol_instr sol ! j)
      in (same_room \<longrightarrow> free)
         \<and> (share_students inst_i inst_j \<longrightarrow> free)
         \<and> (m_instr_dom m ! i \<noteq> None \<and> m_instr_dom m ! j \<noteq> None \<longrightarrow> free \<or> \<not> same_instr \<or> \<not> same_day)
         \<and> (free \<or> \<not> same_day \<or> \<not> same_room))"

text \<open>
  Project grouping: every Project occurrence of a group has the day of the first one of
  that group, i.e. any two of them have the same day.
\<close>

definition project_constraints :: "cp_model \<Rightarrow> solution \<Rightarrow> nat \<Rightarrow> nat \<Rightarrow> bool" where
  "project_constraints m sol i j =
     (let inst_i = fst (m_occurrences m ! i); inst_j = fst (m_occurrences m ! j)
      in i_type inst_i = ''Project'' \<and> truthy_str (i_group_id inst_i)
         \<and> i_type inst_j = ''Project'' \<and> i_group_id inst_j = i_group_id inst_i
         \<longrightarrow> sol_day sol ! i = sol_day sol ! j)"

definition satisfies :: "cp_model \<Rightarrow> solution \<Rightarrow> bool" where
  "satisfies m sol =
     (let n = length (m_occurrences m)
      in length (sol_start sol) = n \<and> length (sol_room sol) = n
         \<and> length (sol_instr sol) = n \<and> length (sol_day sol) = n
         \<and> list_all (var_constraints m sol) [0..<n]
         \<and> list_all (\<lambda>i. list_all (pair_constraints m sol i) [Suc i..<n]) [0..<n]
         \<and> list_all (\<lambda>i. list_all (project_constraints m sol i) [Suc i..<n]) [0..<n])"

subsection \<open>\<open>build_and_solve\<close>: the result\<close>

record cp_record =
  rec_instance_id :: string
  rec_course_id :: string
  rec_type :: string
  rec_day :: string
  rec_period :: int
  rec_subslot :: int
  start_subslot_index :: int
  length_subslots :: int
  rec_room_id :: string
  rec_room_type :: string
  rec_instructor_id :: "string option"
  rec_group_id :: "string option"
  rec_section_id :: "string option"

text \<open>List indexing: a negative index counts from the end, an index out of range raises.\<close>

definition py_index :: "'a list \<Rightarrow> int \<Rightarrow> py_error + 'a" where
  "py_index xs i =
     (let n = int (length xs); j = (if i < 0 then n + i else i)
      in if 0 \<le> j \<and> j < n then Inr (xs ! nat j) else Inl IndexError)"

text \<open>The decimal digits of a natural number, for \<open>f"#{occ}"\<close>.\<close>

fun show_nat :: "nat \<Rightarrow> string" where
  "show_nat n = (if n < 10 then [char_of (48 + n)]
                 else show_nat (n div 10) @ [char_of (48 + n mod 10)])"

definition occ_suffix :: "int \<Rightarrow> string" where
  "occ_suffix occ = (if occ \<noteq> 0 then ''#'' @ show_nat (nat occ) else [])"

definition extract_record ::
  "Room list \<Rightarrow> Instructor list \<Rightarrow> cp_model \<Rightarrow> solution \<Rightarrow> nat \<Rightarrow> py_error + cp_record" where
  "extract_record rs instrs m sol idx =
     (let inst = fst (m_occurrences m ! idx); occ = snd (m_occurrences m ! idx);
          s = sol_start sol ! idx;
          d = s div m_slots_per_day m; sub_in_day = s mod m_slots_per_day m;
          period = sub_in_day div (90 div BASE_SLOT_MINUTES) + 1;
          subslot = sub_in_day mod (90 div BASE_SLOT_MINUTES)
      in case (case sol_instr sol ! idx of
                 None \<Rightarrow> Inr None
               | Some v \<Rightarrow> (case py_index instrs (int v) of
                               Inl e \<Rightarrow> Inl e
                             | Inr instr \<Rightarrow> Inr (Some (instr_id instr)))) of
           Inl e \<Rightarrow> Inl e
         | Inr instr \<Rightarrow>
        (case py_index CP_DAYS d of
           Inl e \<Rightarrow> Inl e
         | Inr day_name \<Rightarrow>
        (case (case length_minutes inst of
                 None \<Rightarrow> Inl TypeError
               | Some l \<Rightarrow> subslots_needed l BASE_SLOT_MINUTES) of
           Inl e \<Rightarrow> Inl e
         | Inr len \<Rightarrow>
        (case py_index rs (int (sol_room sol ! idx)) of
           Inl e \<Rightarrow> Inl e
         | Inr room \<Rightarrow>
             Inr \<lparr>rec_instance_id = instance_id inst @ occ_suffix occ,
                  rec_course_id = i_course_id inst, rec_type = i_type inst,
                  rec_day = day_name, rec_period = period, rec_subslot = subslot,
                  start_subslot_index = s, length_subslots = len,
                  rec_room_id = room_id room, rec_room_type = rtype room,
                  rec_instructor_id = instr,
                  rec_group_id = i_group_id inst, rec_section_id = i_section_id inst\<rparr>))))"

fun extract_loop ::
  "Room list \<Rightarrow> Instructor list \<Rightarrow> cp_model \<Rightarrow> solution \<Rightarrow> nat list \<Rightarrow> py_error + cp_record list" where
  "extract_loop rs instrs m sol [] = Inr []"
| "extract_loop rs instrs m sol (idx # rest) =
     (case extract_record rs instrs m sol idx of
        Inl e \<Rightarrow> Inl e
      | Inr r \<Rightarrow> (case extract_loop rs instrs m sol rest of
                     Inl e \<Rightarrow> Inl e
                   | Inr rs' \<Rightarrow> Inr (r # rs')))"

datatype cp_result =
  INPUT_ERROR "check_error list"
| SCHEDULE "cp_record list"
| UNSCHEDULED "string list"

text \<open>
  \<open>build_and_solve\<close>. The CP-SAT solver is a library outside the repository; it is the
  parameter \<open>solver\<close>, which returns the values of the variables when its status is
  OPTIMAL or FEASIBLE and \<open>None\<close> otherwise.
\<close>

definition build_and_solve ::
  "(cp_model \<Rightarrow> solution option) \<Rightarrow> Room list \<Rightarrow> Instructor list \<Rightarrow> session_instance list \<Rightarrow> params \<Rightarrow>
   py_error + cp_result" where
  "build_and_solve solver rs instrs insts ps =
     (case quick_feasibility_checks rs instrs insts ps of
        Inl e \<Rightarrow> Inl e
      | Inr errs \<Rightarrow>
          if errs \<noteq> [] then Inr (INPUT_ERROR errs)
          else
            (case build_model rs instrs insts ps of
               Inl e \<Rightarrow> Inl e
             | Inr m \<Rightarrow>
                 (case solver m of
                    None \<Rightarrow> Inr (UNSCHEDULED (map (\<lambda>oc. instance_id (fst oc)) (m_occurrences m)))
                  | Some sol \<Rightarrow>
                      (case extract_loop rs instrs m sol [0..<length (m_occurrences m)] of
                         Inl e \<Rightarrow> Inl e
                       | Inr sched \<Rightarrow> Inr (SCHEDULE sched)))))"

text \<open>The cells an assignment occupies in the timetable.\<close>

definition cells_of :: "Assignment \<Rightarrow> cell set" where
  "cells_of a = {(sid, d, q). sid \<in> set (a_sections a) \<and> d = a_day a \<and>
                               a_period a \<le> q \<and> q < a_period a + a_duration a}"

section \<open>Auxiliary notions for the proofs\<close>

text \<open>The entries that one iteration of the loop of \<open>quick_feasibility_checks\<close> appends.\<close>

definition instance_errors :: "Room list \<Rightarrow> Instructor list \<Rightarrow> int \<Rightarrow> session_instance \<Rightarrow> check_error list" where
  "instance_errors rs instrs base inst =
     (case length_minutes inst of
        None \<Rightarrow> [InvalidLength (instance_id inst) None]
      | Some l \<Rightarrow> if l mod base \<noteq> 0 then [InvalidLength (instance_id inst) (Some l)] else [])
     @ (if i_type inst = ''Lab'' \<and> \<not> truthy_str (i_lab_type inst)
        then [LabTypeMissing (instance_id inst)]
        else (if \<not> found_room rs inst then [NoCompatibleRoom (instance_id inst)] else [])
             @ (if i_type inst \<noteq> ''Project'' \<and> \<not> found_instr instrs inst
                then [NoQualifiedInstructor (instance_id inst)] else []))"

text \<open>A room passes the three filters of the candidate loop of \<open>build_and_solve\<close>.\<close>

definition room_ok :: "session_instance \<Rightarrow> Room \<Rightarrow> bool" where
  "room_ok inst r =
     (rtype r \<in> set (valid_room_types_for_session (i_type inst))
      \<and> \<not> (i_type inst = ''Lab'' \<and> truthy_str (i_lab_type inst) \<and> Some (rtype r) \<noteq> i_lab_type inst)
      \<and> \<not> (expected_students inst \<noteq> 0 \<and> capacity r < expected_students inst))"

text \<open>A room passes the three filters of the room loop of \<open>quick_feasibility_checks\<close>.\<close>

definition precheck_room_ok :: "session_instance \<Rightarrow> Room \<Rightarrow> bool" where
  "precheck_room_ok inst r =
     (rtype r \<in> set (valid_room_types_for_session (i_type inst))
      \<and> \<not> (i_type inst = ''Lab'' \<and> Some (rtype r) \<noteq> i_lab_type inst)
      \<and> \<not> (expected_students inst \<noteq> 0 \<and> capacity r < expected_students inst))"

text \<open>An instructor passes the tests of the instructor loops (qualification and role).\<close>

definition instr_ok :: "session_instance \<Rightarrow> Instructor \<Rightarrow> bool" where
  "instr_ok inst instr =
     (i_course_id inst \<in> set (qualified_courses instr)
      \<and> ((i_type inst = ''Lecture'' \<and> role instr = ''Professor'')
          \<or> (i_type inst \<in> set [''Lab'', ''Tut''] \<and> role instr = ''TA'')))"

text \<open>A room passes the tests of \<open>_get_suitable_rooms\<close>.\<close>

definition suitable_ok :: "string \<Rightarrow> int \<Rightarrow> string option \<Rightarrow> bool \<Rightarrow> Room \<Rightarrow> bool" where
  "suitable_ok stype n lab ign room =
     (\<not> (\<not> ign \<and> capacity room < n)
      \<and> ((stype = ''Lab'' \<and> truthy_str lab \<and> Some (rtype room) = lab)
          \<or> (stype = ''Lecture'' \<and> ign \<and> rtype room = ''theater'')
          \<or> (stype = ''Lecture'' \<and> \<not> ign \<and> rtype room \<in> set [''classroom'', ''theater''])
          \<or> (stype = ''Tut'' \<and> rtype room = ''classroom'')))"

text \<open>
  What \<open>_is_valid_assignment\<close> and the ranges of the search loops guarantee of an
  assignment that is stored in the timetable, and the timetables all of whose entries
  have it.
\<close>

definition well_placed :: "Assignment \<Rightarrow> bool" where
  "well_placed a =
     (0 \<le> a_day a \<and> a_day a < DAYS \<and> 0 \<le> a_period a \<and> 1 \<le> a_duration a
      \<and> a_period a + a_duration a \<le> PERIODS_PER_DAY
      \<and> (a_duration a = 2 \<longrightarrow> a_period a mod 2 = 0))"

definition timetable_ok :: "state \<Rightarrow> bool" where
  "timetable_ok st = (\<forall>e \<in> set (timetable st). well_placed (snd e))"

fun outcome_ok :: "outcome \<Rightarrow> bool" where
  "outcome_ok OutOfFuel = True"
| "outcome_ok (Raised e st) = timetable_ok st"
| "outcome_ok (Returned ok st) = timetable_ok st"

section \<open>Concrete inputs\<close>

definition ex_a0 :: Assignment where
  "ex_a0 = \<lparr>a_course_id = ''C1'', a_session_type = ''Lecture'', a_day = 0, a_period = 0,
         a_sections = [''S1'', ''S2''], a_duration = 2, a_instructor_id = ''P1'', a_room_id = ''R1''\<rparr>"

definition ex_a1 :: Assignment where
  "ex_a1 = \<lparr>a_course_id = ''C2'', a_session_type = ''Tut'', a_day = 0, a_period = 2,
         a_sections = [''S1''], a_duration = 1, a_instructor_id = ''TA1'', a_room_id = ''R1''\<rparr>"

definition ex_st1 :: state where
  "ex_st1 = place_assignment init_state ex_a0"

text \<open>
  One group of two sections, a classroom, a theater and a physics lab, a professor and a
  teaching assistant; a lecture-only course, a course with a lecture and a tutorial, and a
  course with a physics lab.
\<close>

definition ex_rooms :: "Room list" where
  "ex_rooms = [\<lparr>room_id = ''R1'', rtype = ''classroom'', capacity = 100, building = ''B1''\<rparr>,
               \<lparr>room_id = ''T1'', rtype = ''theater'', capacity = 200, building = ''B1''\<rparr>,
               \<lparr>room_id = ''PL'', rtype = ''physics lab'', capacity = 30, building = ''B2''\<rparr>]"

definition ex_p1 :: Instructor where
  "ex_p1 = \<lparr>instr_id = ''P1'', iname = ''Prof'', role = ''Professor'',
             qualified_courses = [''C1'', ''C2'', ''PH'']\<rparr>"

definition ex_ta1 :: Instructor where
  "ex_ta1 = \<lparr>instr_id = ''TA1'', iname = ''Assistant'', role = ''TA'',
              qualified_courses = [''C1'', ''C2'', ''PH'']\<rparr>"

definition ex_instructors :: "Instructor list" where
  "ex_instructors = [ex_p1, ex_ta1]"

definition ex_g1 :: Group where
  "ex_g1 = \<lparr>group_id = ''G1'', gyear = 1, specialization = None, sections_count = 2,
             students_count = 40\<rparr>"

definition ex_groups :: "Group list" where
  "ex_groups = [ex_g1]"

definition ex_s1 :: Section where
  "ex_s1 = \<lparr>section_id = ''S1'', s_group_id = ''G1'', s_students_count = 20\<rparr>"

definition ex_s2 :: Section where
  "ex_s2 = \<lparr>section_id = ''S2'', s_group_id = ''G1'', s_students_count = 20\<rparr>"

definition ex_sections :: "Section list" where
  "ex_sections = [ex_s1, ex_s2]"

definition ex_lecture :: kind_in where
  "ex_lecture = \<lparr>in_type = ''Lecture'', in_length = Some 90, in_lab_type = None,
                 in_sessions_per_week = None, in_max_sections_together = None,
                 in_ignore_capacity = None\<rparr>"

definition ex_tut :: kind_in where
  "ex_tut = \<lparr>in_type = ''Tut'', in_length = Some 45, in_lab_type = None,
             in_sessions_per_week = None, in_max_sections_together = None,
             in_ignore_capacity = None\<rparr>"

definition ex_lab :: kind_in where
  "ex_lab = \<lparr>in_type = ''Lab'', in_length = Some 90, in_lab_type = Some ''physics lab'',
             in_sessions_per_week = None, in_max_sections_together = None,
             in_ignore_capacity = None\<rparr>"

definition ex_c1 :: course_in where
  "ex_c1 = \<lparr>in_course_id = ''C1'', in_name = ''Algebra'', in_year = 1, in_major = None,
            in_kinds = [ex_lecture], in_full_year = None, in_is_project = None\<rparr>"

definition ex_c2 :: course_in where
  "ex_c2 = \<lparr>in_course_id = ''C2'', in_name = ''Logic'', in_year = 1, in_major = None,
            in_kinds = [ex_lecture, ex_tut], in_full_year = None, in_is_project = None\<rparr>"

definition ex_ph :: course_in where
  "ex_ph = \<lparr>in_course_id = ''PH'', in_name = ''Physics'', in_year = 1, in_major = None,
            in_kinds = [ex_lab], in_full_year = None, in_is_project = None\<rparr>"

definition ex_params :: params where
  "ex_params = \<lparr>days = CP_DAYS, periods_per_day = CP_PERIODS_PER_DAY,
                base_slot_minutes = BASE_SLOT_MINUTES\<rparr>"

definition ex_instances :: "session_instance list" where
  "ex_instances = generate_instances [ex_c1, ex_c2, ex_ph] ex_groups ex_sections"

definition ex_data :: data_in where
  "ex_data = \<lparr>d_rooms = ex_rooms, d_instructors = ex_instructors, d_groups = ex_groups,
              d_sections = ex_sections, d_courses = [ex_c1, ex_c2, ex_ph]\<rparr>"

text \<open>The scheduler that \<open>__init__\<close> builds from \<open>ex_data\<close>.\<close>

definition ex_k_lecture :: CourseKind where
  "ex_k_lecture = \<lparr>ktype = ''Lecture'', klength = 90, lab_type = None,
                   max_sections_together = 1, ignore_capacity = False\<rparr>"

definition ex_k_tut :: CourseKind where
  "ex_k_tut = \<lparr>ktype = ''Tut'', klength = 45, lab_type = None,
               max_sections_together = 1, ignore_capacity = False\<rparr>"

definition ex_k_lab :: CourseKind where
  "ex_k_lab = \<lparr>ktype = ''Lab'', klength = 90, lab_type = Some ''physics lab'',
               max_sections_together = 1, ignore_capacity = False\<rparr>"

definition ex_course1 :: Course where
  "ex_course1 = \<lparr>course_id = ''C1'', cname = ''Algebra'', cyear = 1, major = None,
                 kinds = [ex_k_lecture], full_year = False, is_project = False\<rparr>"

definition ex_course2 :: Course where
  "ex_course2 = \<lparr>course_id = ''C2'', cname = ''Logic'', cyear = 1, major = None,
                 kinds = [ex_k_lecture, ex_k_tut], full_year = False, is_project = False\<rparr>"

definition ex_course_ph :: Course where
  "ex_course_ph = \<lparr>course_id = ''PH'', cname = ''Physics'', cyear = 1, major = None,
                   kinds = [ex_k_lab], full_year = False, is_project = False\<rparr>"

definition ex_sch :: scheduler where
  "ex_sch = \<lparr>rooms = ex_rooms, instructors = ex_instructors, groups = ex_groups,
             sections = ex_sections, courses = [ex_course1, ex_course2, ex_course_ph]\<rparr>"

text \<open>
  A document in which course \<open>CX\<close> has no qualified instructor: one classroom, one
  professor qualified for \<open>C0\<close> only, one group with one section, and two courses with
  one lecture each (a full-day lecture for \<open>C0\<close>).
\<close>

definition ex_long_lecture :: kind_in where
  "ex_long_lecture = \<lparr>in_type = ''Lecture'', in_length = Some 360, in_lab_type = None,
                      in_sessions_per_week = Some 1, in_max_sections_together = None,
                      in_ignore_capacity = None\<rparr>"

definition ex_c0 :: course_in where
  "ex_c0 = \<lparr>in_course_id = ''C0'', in_name = ''Workshop'', in_year = 1, in_major = None,
            in_kinds = [ex_long_lecture], in_full_year = None, in_is_project = None\<rparr>"

definition ex_cx :: course_in where
  "ex_cx = \<lparr>in_course_id = ''CX'', in_name = ''Orphan'', in_year = 1, in_major = None,
            in_kinds = [ex_lecture], in_full_year = None, in_is_project = None\<rparr>"

definition ex_noinstr :: data_in where
  "ex_noinstr =
     \<lparr>d_rooms = [\<lparr>room_id = ''R1'', rtype = ''classroom'', capacity = 100, building = ''B1''\<rparr>],
      d_instructors = [\<lparr>instr_id = ''P1'', iname = ''Prof'', role = ''Professor'',
                        qualified_courses = [''C0'']\<rparr>],
      d_groups = [\<lparr>group_id = ''G1'', gyear = 1, specialization = None, sections_count = 1,
                   students_count = 20\<rparr>],
      d_sections = [ex_s1],
      d_courses = [ex_c0, ex_cx]\<rparr>"

text \<open>The scheduler that \<open>__init__\<close> builds from \<open>ex_noinstr\<close>.\<close>

definition ex_noinstr_sch :: scheduler where
  "ex_noinstr_sch =
     \<lparr>rooms = d_rooms ex_noinstr, instructors = d_instructors ex_noinstr,
      groups = d_groups ex_noinstr, sections = d_sections ex_noinstr,
      courses = [\<lparr>course_id = ''C0'', cname = ''Workshop'', cyear = 1, major = None,
                   kinds = [\<lparr>ktype = ''Lecture'', klength = 360, lab_type = None,
                              max_sections_together = 1, ignore_capacity = False\<rparr>],
                   full_year = False, is_project = False\<rparr>,
                 \<lparr>course_id = ''CX'', cname = ''Orphan'', cyear = 1, major = None,
                   kinds = [ex_k_lecture], full_year = False, is_project = False\<rparr>]\<rparr>"

text \<open>
  A lecture whose kind sets \<open>ignore_capacity\<close>, for the group of 40 students, and a
  theater with 30 seats.
\<close>

definition ex_ic_lecture :: kind_in where
  "ex_ic_lecture = \<lparr>in_type = ''Lecture'', in_length = Some 90, in_lab_type = None,
                    in_sessions_per_week = Some 1, in_max_sections_together = None,
                    in_ignore_capacity = Some True\<rparr>"

definition ex_ic :: course_in where
  "ex_ic = \<lparr>in_course_id = ''IC'', in_name = ''Plenary'', in_year = 1, in_major = None,
            in_kinds = [ex_ic_lecture], in_full_year = None, in_is_project = None\<rparr>"

definition ex_small_theater :: Room where
  "ex_small_theater = \<lparr>room_id = ''T30'', rtype = ''theater'', capacity = 30, building = ''B1''\<rparr>"

definition ex_p2 :: Instructor where
  "ex_p2 = \<lparr>instr_id = ''P2'', iname = ''Dean'', role = ''Professor'', qualified_courses = [''IC'']\<rparr>"

text \<open>
  A solver answer for the two weekly lectures of course \<open>C1\<close>: sub-slots 0 and 2 of the
  first day, both in room 0 with instructor 0; and the schedule \<open>build_and_solve\<close> then
  returns.
\<close>

definition ex_c1_instances :: "session_instance list" where
  "ex_c1_instances = generate_instances [ex_c1] ex_groups ex_sections"

definition ex_c1_solution :: solution where
  "ex_c1_solution = \<lparr>sol_start = [0, 2], sol_room = [0, 0], sol_instr = [Some 0, Some 0],
                     sol_day = [0, 0]\<rparr>"

definition ex_c1_schedule :: "cp_record list" where
  "ex_c1_schedule =
     [\<lparr>rec_instance_id = ''C1_G1_LEC'', rec_course_id = ''C1'', rec_type = ''Lecture'',
       rec_day = ''Sunday'', rec_period = 1, rec_subslot = 0, start_subslot_index = 0,
       length_subslots = 2, rec_room_id = ''R1'', rec_room_type = ''classroom'',
       rec_instructor_id = Some ''P1'', rec_group_id = Some ''G1'', rec_section_id = None\<rparr>,
      \<lparr>rec_instance_id = ''C1_G1_LEC#1'', rec_course_id = ''C1'', rec_type = ''Lecture'',
       rec_day = ''Sunday'', rec_period = 2, rec_subslot = 0, start_subslot_index = 2,
       length_subslots = 2, rec_room_id = ''R1'', rec_room_type = ''classroom'',
       rec_instructor_id = Some ''P1'', rec_group_id = Some ''G1'', rec_section_id = None\<rparr>]"




text \<open>The document with course \<open>C1\<close> only, and the scheduler \<open>__init__\<close> builds from it.\<close>

definition ex_c1_data :: data_in where
  "ex_c1_data = \<lparr>d_rooms = ex_rooms, d_instructors = ex_instructors, d_groups = ex_groups,
                 d_sections = ex_sections, d_courses = [ex_c1]\<rparr>"

definition ex_c1_sch :: scheduler where
  "ex_c1_sch = \<lparr>rooms = ex_rooms, instructors = ex_instructors, groups = ex_groups,
                sections = ex_sections, courses = [ex_course1]\<rparr>"

text \<open>
  A graduation project with one lecture kind of 90 minutes, a professor qualified for
  it, the document and the scheduler \<open>__init__\<close> builds from it, and a solver answer for
  its one occurrence: sub-slot 0 of the first day in room 0, no instructor.
\<close>

definition ex_gp1 :: course_in where
  "ex_gp1 = \<lparr>in_course_id = ''GP'', in_name = ''Project'', in_year = 1, in_major = None,
             in_kinds = [ex_lecture], in_full_year = None, in_is_project = Some True\<rparr>"

definition ex_p3 :: Instructor where
  "ex_p3 = \<lparr>instr_id = ''P3'', iname = ''Supervisor'', role = ''Professor'',
             qualified_courses = [''GP'']\<rparr>"

definition ex_gp_data :: data_in where
  "ex_gp_data = \<lparr>d_rooms = ex_rooms, d_instructors = [ex_p3], d_groups = ex_groups,
                 d_sections = ex_sections, d_courses = [ex_gp1]\<rparr>"

definition ex_gp_course :: Course where
  "ex_gp_course = \<lparr>course_id = ''GP'', cname = ''Project'', cyear = 1, major = None,
                   kinds = [ex_k_lecture], full_year = False, is_project = True\<rparr>"

definition ex_gp_sch :: scheduler where
  "ex_gp_sch = \<lparr>rooms = ex_rooms, instructors = [ex_p3], groups = ex_groups,
                sections = ex_sections, courses = [ex_gp_course]\<rparr>"





text \<open>
  One section, and a course with a tutorial of 45 minutes and a lecture of 135 minutes;
  and the course \<open>C1\<close> with a lecture of length 0.
\<close>

definition ex_odd_data :: data_in where
  "ex_odd_data =
     \<lparr>d_rooms = ex_rooms, d_instructors = ex_instructors, d_groups = ex_groups,
      d_sections = [ex_s1],
      d_courses = [\<lparr>in_course_id = ''C1'', in_name = ''Algebra'', in_year = 1, in_major = None,
                    in_kinds = [ex_tut, ex_lecture\<lparr>in_length := Some 135\<rparr>],
                    in_full_year = None, in_is_project = None\<rparr>]\<rparr>"


text \<open>
  The model \<open>build_and_solve\<close> builds for the two weekly lectures of course \<open>C1\<close>, and a
  solver answer that starts them at sub-slots 1 and 3 of the first day.
\<close>

definition ex_c1_model :: cp_model where
  "ex_c1_model =
     \<lparr>m_occurrences = [(lecture_instance ex_c1 ex_lecture ex_g1, 0),
                       (lecture_instance ex_c1 ex_lecture ex_g1, 1)],
      m_needed = [2, 2],
      m_start_dom = [filter (\<lambda>s. s mod 8 \<noteq> 7) [0..38], filter (\<lambda>s. s mod 8 \<noteq> 7) [0..38]],
      m_room_dom = [[0, 1], [0, 1]], m_instr_dom = [Some [0], Some [0]],
      m_ndays = 5, m_slots_per_day = 8\<rparr>"

definition ex_odd_solution :: solution where
  "ex_odd_solution = \<lparr>sol_start = [1, 3], sol_room = [0, 0], sol_instr = [Some 0, Some 0],
                      sol_day = [0, 0]\<rparr>"

definition ex_odd_solver :: "cp_model \<Rightarrow> solution option" where
  "ex_odd_solver m = Some ex_odd_solution"

definition ex_odd_schedule :: "cp_record list" where
  "ex_odd_schedule =
     [\<lparr>rec_instance_id = ''C1_G1_LEC'', rec_course_id = ''C1'', rec_type = ''Lecture'',
       rec_day = ''Sunday'', rec_period = 1, rec_subslot = 1, start_subslot_index = 1,
       length_subslots = 2, rec_room_id = ''R1'', rec_room_type = ''classroom'',
       rec_instructor_id = Some ''P1'', rec_group_id = Some ''G1'', rec_section_id = None\<rparr>,
      \<lparr>rec_instance_id = ''C1_G1_LEC#1'', rec_course_id = ''C1'', rec_type = ''Lecture'',
       rec_day = ''Sunday'', rec_period = 2, rec_subslot = 1, start_subslot_index = 3,
       length_subslots = 2, rec_room_id = ''R1'', rec_room_type = ''classroom'',
       rec_instructor_id = Some ''P1'', rec_group_id = Some ''G1'', rec_section_id = None\<rparr>]"

text \<open>
  A week of one day with one period, i.e. two sub-slots: the group \<open>G1\<close> with its
  section \<open>S1\<close>, and course \<open>C2\<close> with one weekly lecture of 90 minutes and a tutorial
  of 45 minutes. The model \<open>build_and_solve\<close> builds for it, values for its variables
  (the lecture in the theater and the tutorial in the classroom, both from sub-slot 0), and
  the schedule read off these values.
\<close>

definition ex_clash_params :: params where
  "ex_clash_params = \<lparr>days = [''Sunday''], periods_per_day = 1, base_slot_minutes = 45\<rparr>"

definition ex_clash_course :: course_in where
  "ex_clash_course = ex_c2\<lparr>in_kinds := [ex_lecture\<lparr>in_sessions_per_week := Some 1\<rparr>, ex_tut]\<rparr>"

definition ex_clash_instances :: "session_instance list" where
  "ex_clash_instances = generate_instances [ex_clash_course] ex_groups [ex_s1]"

definition ex_clash_model :: cp_model where
  "ex_clash_model =
     \<lparr>m_occurrences = [(lecture_instance ex_clash_course (ex_lecture\<lparr>in_sessions_per_week := Some 1\<rparr>) ex_g1, 0),
                       (tut_instance ex_clash_course ex_tut ex_s1, 0)],
      m_needed = [2, 1],
      m_start_dom = [[0], [0, 1]], m_room_dom = [[0, 1], [0]], m_instr_dom = [Some [0], Some [1]],
      m_ndays = 1, m_slots_per_day = 2\<rparr>"

definition ex_clash_solution :: solution where
  "ex_clash_solution = \<lparr>sol_start = [0, 0], sol_room = [1, 0], sol_instr = [Some 0, Some 1],
                        sol_day = [0, 0]\<rparr>"

definition ex_clash_schedule :: "cp_record list" where
  "ex_clash_schedule =
     [\<lparr>rec_instance_id = ''C2_G1_LEC'', rec_course_id = ''C2'', rec_type = ''Lecture'',
       rec_day = ''Sunday'', rec_period = 1, rec_subslot = 0, start_subslot_index = 0,
       length_subslots = 2, rec_room_id = ''T1'', rec_room_type = ''theater'',
       rec_instructor_id = Some ''P1'', rec_group_id = Some ''G1'', rec_section_id = None\<rparr>,
      \<lparr>rec_instance_id = ''C2_S1_TUT'', rec_course_id = ''C2'', rec_type = ''Tut'',
       rec_day = ''Sunday'', rec_period = 1, rec_subslot = 0, start_subslot_index = 0,
       length_subslots = 1, rec_room_id = ''R1'', rec_room_type = ''classroom'',
       rec_instructor_id = Some ''TA1'', rec_group_id = None, rec_section_id = Some ''S1''\<rparr>]"

section \<open>Placement and its undo\<close>

lemma set_py_range: "set (py_range a b) = {q. a \<le> q \<and> q < b}"
  by (auto simp: py_range_def)

lemma update_append_fresh:
  "k \<notin> fst ` set xs \<Longrightarrow> AList.update k v (xs @ ys) = xs @ AList.update k v ys"
  by (induction xs) auto

lemma place_cells_append:
  "\<forall>q \<in> set qs. (sid, a_day a, q) \<notin> fst ` set tt \<Longrightarrow>
   place_cells a sid qs (tt @ new) = tt @ place_cells a sid qs new"
  by (induction qs arbitrary: new) (simp_all add: update_append_fresh)

lemma place_cells_keys:
  "fst ` set (place_cells a sid qs new) = fst ` set new \<union> {(sid, a_day a, q) | q. q \<in> set qs}"
  by (induction qs arbitrary: new) (auto simp: AList.dom_update)

lemma place_cells_values:
  "snd ` set new \<subseteq> {a} \<Longrightarrow> snd ` set (place_cells a sid qs new) \<subseteq> {a}"
proof (induction qs arbitrary: new)
  case Nil
  then show ?case by simp
next
  case (Cons q qs)
  have "snd ` set (AList.update k a new) \<subseteq> {a}" if "snd ` set new \<subseteq> {a}" for k and new :: "(cell \<times> Assignment) list"
    using that by (induction new) auto
  with Cons show ?case by simp
qed

lemma busy_place_sections:
  "instructor_busy (place_sections a sids st) = instructor_busy st"
  "room_busy (place_sections a sids st) = room_busy st"
  "attempts (place_sections a sids st) = attempts st"
  "backtracks (place_sections a sids st) = backtracks st"
  by (induction sids arbitrary: st) simp_all

lemma busy_remove_sections:
  "instructor_busy (remove_sections a sids st) = instructor_busy st"
  "room_busy (remove_sections a sids st) = room_busy st"
  "attempts (remove_sections a sids st) = attempts st"
  "backtracks (remove_sections a sids st) = backtracks st"
  by (induction sids arbitrary: st) simp_all

lemma timetable_place_busy:
  "timetable (place_busy a qs st) = timetable st"
  "scheduled_sessions (place_busy a qs st) = scheduled_sessions st"
  "attempts (place_busy a qs st) = attempts st"
  "backtracks (place_busy a qs st) = backtracks st"
  by (induction qs arbitrary: st) simp_all

lemma timetable_remove_busy:
  "timetable (remove_busy a qs st) = timetable st"
  "scheduled_sessions (remove_busy a qs st) = scheduled_sessions st"
  "attempts (remove_busy a qs st) = attempts st"
  "backtracks (remove_busy a qs st) = backtracks st"
  by (induction qs arbitrary: st) simp_all

lemma timetable_place_sections:
  "timetable (place_sections a sids st) =
     fold (\<lambda>sid. place_cells a sid (py_range (a_period a) (a_period a + a_duration a))) sids (timetable st)"
  by (induction sids arbitrary: st) simp_all

lemma place_all_append:
  "\<forall>sid \<in> set sids. \<forall>q \<in> set qs. (sid, a_day a, q) \<notin> fst ` set tt \<Longrightarrow>
   fold (\<lambda>sid. place_cells a sid qs) sids (tt @ new) = tt @ fold (\<lambda>sid. place_cells a sid qs) sids new"
  by (induction sids arbitrary: new) (simp_all add: place_cells_append)

lemma place_all_keys:
  "fst ` set (fold (\<lambda>sid. place_cells a sid qs) sids new) =
     fst ` set new \<union> {(sid, a_day a, q) | sid q. sid \<in> set sids \<and> q \<in> set qs}"
proof (induction sids arbitrary: new)
  case Nil
  show ?case by simp
next
  case (Cons sid sids)
  have "{(s, a_day a, q) | s q. s \<in> set (sid # sids) \<and> q \<in> set qs} =
        {(sid, a_day a, q) | q. q \<in> set qs} \<union> {(s, a_day a, q) | s q. s \<in> set sids \<and> q \<in> set qs}"
    by auto
  then show ?case
    by (simp add: Cons.IH place_cells_keys Un_assoc)
qed

lemma place_all_values:
  "snd ` set new \<subseteq> {a} \<Longrightarrow> snd ` set (fold (\<lambda>sid. place_cells a sid qs) sids new) \<subseteq> {a}"
  by (induction sids arbitrary: new) (simp_all add: place_cells_values)

lemma cells_of_eq:
  "cells_of a = {(sid, a_day a, q) | sid q. sid \<in> set (a_sections a)
                   \<and> q \<in> set (py_range (a_period a) (a_period a + a_duration a))}"
  by (auto simp: cells_of_def set_py_range)

lemma timetable_place:
  assumes "\<forall>k \<in> cells_of a. k \<notin> fst ` set (timetable st)"
  shows "\<exists>new. timetable (place_assignment st a) = timetable st @ new
           \<and> fst ` set new = cells_of a \<and> snd ` set new \<subseteq> {a}"
proof -
  let ?qs = "py_range (a_period a) (a_period a + a_duration a)"
  let ?new = "fold (\<lambda>sid. place_cells a sid ?qs) (a_sections a) []"
  have fresh: "\<forall>sid \<in> set (a_sections a). \<forall>q \<in> set ?qs. (sid, a_day a, q) \<notin> fst ` set (timetable st)"
    using assms unfolding cells_of_eq by blast
  have "timetable (place_assignment st a) = timetable st @ ?new"
    using place_all_append [OF fresh, of "[]"]
    by (simp add: place_assignment_def timetable_place_busy timetable_place_sections)
  moreover have "fst ` set ?new = cells_of a"
    unfolding place_all_keys cells_of_eq by simp
  moreover have "snd ` set ?new \<subseteq> {a}"
    by (rule place_all_values) simp
  ultimately show ?thesis by blast
qed

lemma remove_cells_filter:
  "remove_cells a sid qs tt = filter (\<lambda>p. fst p \<notin> {(sid, a_day a, q) | q. q \<in> set qs}) tt"
proof (induction qs arbitrary: tt)
  case Nil
  then show ?case by simp
next
  case (Cons q qs)
  have step: "(if map_of tt (sid, a_day a, q) \<noteq> None then AList.delete (sid, a_day a, q) tt else tt)
        = filter (\<lambda>p. fst p \<noteq> (sid, a_day a, q)) tt"
  proof (cases "map_of tt (sid, a_day a, q) = None")
    case True
    then have "\<forall>p \<in> set tt. fst p \<noteq> (sid, a_day a, q)"
      by (force simp: map_of_eq_None_iff)
    with True show ?thesis by simp
  next
    case False
    have "AList.delete (sid, a_day a, q) tt = filter (\<lambda>p. fst p \<noteq> (sid, a_day a, q)) tt"
      unfolding AList.delete_eq by (rule filter_cong) auto
    with False show ?thesis by simp
  qed
  show ?case
    unfolding remove_cells.simps step Cons.IH
    by (auto intro!: filter_cong)
qed

lemma timetable_remove_sections:
  "timetable (remove_sections a sids st) =
     filter (\<lambda>p. fst p \<notin> {(sid, a_day a, q) | sid q. sid \<in> set sids
                    \<and> q \<in> set (py_range (a_period a) (a_period a + a_duration a))}) (timetable st)"
proof (induction sids arbitrary: st)
  case Nil
  then show ?case by simp
next
  case (Cons sid sids)
  show ?case
    unfolding remove_sections.simps Cons.IH
    by (auto simp: remove_cells_filter intro!: filter_cong)
qed

lemma timetable_remove:
  "timetable (remove_assignment st a) = filter (\<lambda>p. fst p \<notin> cells_of a) (timetable st)"
  by (simp add: remove_assignment_def timetable_remove_busy timetable_remove_sections cells_of_eq)

lemma instructor_busy_place:
  "instructor_busy (place_assignment st a) =
     instructor_busy st \<union> {(a_instructor_id a, a_day a, q) | q. a_period a \<le> q \<and> q < a_period a + a_duration a}"
proof -
  have "instructor_busy (place_busy a qs st) = instructor_busy st \<union> {(a_instructor_id a, a_day a, q) | q. q \<in> set qs}"
    for qs st
    by (induction qs arbitrary: st) auto
  then show ?thesis
    by (simp add: place_assignment_def busy_place_sections set_py_range)
qed

lemma room_busy_place:
  "room_busy (place_assignment st a) =
     (if a_room_id a \<noteq> ''N/A''
      then room_busy st \<union> {(a_room_id a, a_day a, q) | q. a_period a \<le> q \<and> q < a_period a + a_duration a}
      else room_busy st)"
proof -
  have "room_busy (place_busy a qs st) =
        (if a_room_id a \<noteq> ''N/A'' then room_busy st \<union> {(a_room_id a, a_day a, q) | q. q \<in> set qs}
         else room_busy st)"
    for qs st
    by (induction qs arbitrary: st) auto
  then show ?thesis
    by (simp add: place_assignment_def busy_place_sections set_py_range)
qed

lemma instructor_busy_remove:
  "instructor_busy (remove_assignment st a) =
     instructor_busy st - {(a_instructor_id a, a_day a, q) | q. a_period a \<le> q \<and> q < a_period a + a_duration a}"
proof -
  have "instructor_busy (remove_busy a qs st) = instructor_busy st - {(a_instructor_id a, a_day a, q) | q. q \<in> set qs}"
    for qs st
    by (induction qs arbitrary: st) auto
  then show ?thesis
    by (simp add: remove_assignment_def busy_remove_sections set_py_range)
qed

lemma room_busy_remove:
  "room_busy (remove_assignment st a) =
     (if a_room_id a \<noteq> ''N/A''
      then room_busy st - {(a_room_id a, a_day a, q) | q. a_period a \<le> q \<and> q < a_period a + a_duration a}
      else room_busy st)"
proof -
  have "room_busy (remove_busy a qs st) =
        (if a_room_id a \<noteq> ''N/A'' then room_busy st - {(a_room_id a, a_day a, q) | q. q \<in> set qs}
         else room_busy st)"
    for qs st
    by (induction qs arbitrary: st) auto
  then show ?thesis
    by (simp add: remove_assignment_def busy_remove_sections set_py_range)
qed

lemma valid_cells_free:
  assumes "is_valid_assignment st (a_sections a) (a_day a) (a_period a) (a_duration a) i r"
  shows "\<forall>k \<in> cells_of a. k \<notin> fst ` set (timetable st)"
  using assms
  by (auto simp: is_valid_assignment_def cells_of_def list_ex_iff set_py_range map_of_eq_None_iff
           split: if_splits)

lemma valid_instr_free:
  assumes "is_valid_assignment st secs d p dur i r" "p \<le> q" "q < p + dur"
  shows "(i, d, q) \<notin> instructor_busy st"
  using assms
  by (auto simp: is_valid_assignment_def list_ex_iff set_py_range split: if_splits)

lemma valid_room_free:
  assumes "is_valid_assignment st secs d p dur i r" "p \<le> q" "q < p + dur" "r \<noteq> ''N/A''"
  shows "(r, d, q) \<notin> room_busy st"
  using assms
  by (auto simp: is_valid_assignment_def list_ex_iff set_py_range split: if_splits)

text \<open>
  Claim C9. For every state and every assignment that \<open>_is_valid_assignment\<close> accepts in
  that state, \<open>_place_assignment\<close> followed by \<open>_remove_assignment\<close> of the same
  assignment leaves \<open>timetable\<close>, \<open>instructor_busy\<close> and \<open>room_busy\<close> exactly as they
  were before the placement (the timetable even with its entries in the same order).
\<close>

theorem place_then_remove_restores:
  assumes "is_valid_assignment st (a_sections a) (a_day a) (a_period a) (a_duration a)
             (a_instructor_id a) (a_room_id a)"
  shows "timetable (remove_assignment (place_assignment st a) a) = timetable st
       \<and> instructor_busy (remove_assignment (place_assignment st a) a) = instructor_busy st
       \<and> room_busy (remove_assignment (place_assignment st a) a) = room_busy st"
proof (intro conjI)
  from timetable_place [OF valid_cells_free [OF assms]] obtain new where
    new: "timetable (place_assignment st a) = timetable st @ new" "fst ` set new = cells_of a"
    by blast
  have "filter (\<lambda>p. fst p \<notin> cells_of a) (timetable st) = timetable st"
    using valid_cells_free [OF assms] by (auto intro!: filter_True)
  moreover have "filter (\<lambda>p. fst p \<notin> cells_of a) new = []"
    using new(2) by (auto simp: filter_empty_conv)
  ultimately show "timetable (remove_assignment (place_assignment st a) a) = timetable st"
    by (simp add: timetable_remove new(1))
  show "instructor_busy (remove_assignment (place_assignment st a) a) = instructor_busy st"
    using valid_instr_free [OF assms]
    by (auto simp: instructor_busy_remove instructor_busy_place)
  show "room_busy (remove_assignment (place_assignment st a) a) = room_busy st"
    using valid_room_free [OF assms]
    by (auto simp: room_busy_remove room_busy_place)
qed

lemma ex_a1_valid:
  "is_valid_assignment ex_st1 (a_sections ex_a1) (a_day ex_a1) (a_period ex_a1) (a_duration ex_a1)
             (a_instructor_id ex_a1) (a_room_id ex_a1)"
  by code_simp

theorem place_then_remove_restores_witness:
  "is_valid_assignment ex_st1 (a_sections ex_a1) (a_day ex_a1) (a_period ex_a1) (a_duration ex_a1)
             (a_instructor_id ex_a1) (a_room_id ex_a1)
   \<and> timetable (remove_assignment (place_assignment ex_st1 ex_a1) ex_a1) = timetable ex_st1
   \<and> instructor_busy (remove_assignment (place_assignment ex_st1 ex_a1) ex_a1) = instructor_busy ex_st1
   \<and> room_busy (remove_assignment (place_assignment ex_st1 ex_a1) ex_a1) = room_busy ex_st1"
  using place_then_remove_restores [OF ex_a1_valid] ex_a1_valid by simp

section \<open>The pre-check and the room domains of the constraint model\<close>

lemma quick_loop_step:
  "quick_loop rs instrs base (inst # rest) errs =
     (if length_minutes inst \<noteq> None \<and> base = 0 then Inl ZeroDivisionError
      else quick_loop rs instrs base rest (errs @ instance_errors rs instrs base inst))"
  by (simp add: instance_errors_def Let_def split: option.splits)

lemma quick_loop_result:
  "quick_loop rs instrs base insts errs = Inr out \<Longrightarrow>
   out = errs @ concat (map (instance_errors rs instrs base) insts)"
proof (induction insts arbitrary: errs)
  case Nil
  then show ?case by simp
next
  case (Cons inst rest)
  from Cons.prems have "quick_loop rs instrs base rest (errs @ instance_errors rs instrs base inst) = Inr out"
    unfolding quick_loop_step by (simp split: if_splits)
  from Cons.IH [OF this] show ?case by simp
qed

lemma quick_loop_total:
  "base \<noteq> 0 \<Longrightarrow> \<exists>out. quick_loop rs instrs base insts errs = Inr out"
  by (induction insts arbitrary: errs) (simp_all only: quick_loop.simps(1) quick_loop_step, auto)

lemma found_room_iff: "found_room rs inst \<longleftrightarrow> (\<exists>r \<in> set rs. precheck_room_ok inst r)"
  by (induction rs) (simp_all add: precheck_room_ok_def)

lemma room_candidates_loop_filter:
  "room_candidates_loop xs inst = map fst (filter (\<lambda>x. room_ok inst (snd x)) xs)"
  by (induction xs inst rule: room_candidates_loop.induct) (simp_all add: room_ok_def)

lemma room_candidates_set:
  "set (room_candidates rs inst) = {i. i < length rs \<and> room_ok inst (rs ! i)}"
proof -
  have "i \<in> set (room_candidates rs inst) \<longleftrightarrow> i < length rs \<and> room_ok inst (rs ! i)" for i
  proof
    assume "i \<in> set (room_candidates rs inst)"
    then show "i < length rs \<and> room_ok inst (rs ! i)"
      by (auto simp: room_candidates_def room_candidates_loop_filter in_set_enumerate_eq)
  next
    assume "i < length rs \<and> room_ok inst (rs ! i)"
    then have "(i, rs ! i) \<in> set (filter (\<lambda>x. room_ok inst (snd x)) (enumerate 0 rs))"
      by (simp add: in_set_enumerate_eq)
    then have "fst (i, rs ! i) \<in> fst ` set (filter (\<lambda>x. room_ok inst (snd x)) (enumerate 0 rs))"
      by (rule imageI)
    then show "i \<in> set (room_candidates rs inst)"
      by (simp add: room_candidates_def room_candidates_loop_filter)
  qed
  then show ?thesis by blast
qed

lemma instance_of_occurrence:
  "(inst, occ) \<in> set (expand_occurrences insts) \<Longrightarrow> inst \<in> set insts"
  by (auto simp: expand_occurrences_def)

lemma checks_pass_instance:
  assumes "quick_feasibility_checks rs instrs insts ps = Inr []" "inst \<in> set insts"
  shows "instance_errors rs instrs (base_slot_minutes ps) inst = []"
  using quick_loop_result [of rs instrs "base_slot_minutes ps" insts "[]" "[]"] assms
  by (auto simp: quick_feasibility_checks_def)

lemma checks_pass_room:
  assumes "quick_feasibility_checks rs instrs insts ps = Inr []" "inst \<in> set insts"
  shows "found_room rs inst \<and> (i_type inst = ''Lab'' \<longrightarrow> truthy_str (i_lab_type inst))"
  using checks_pass_instance [OF assms]
  by (auto simp: instance_errors_def split: if_splits option.splits)

lemma checks_pass_candidates:
  assumes "quick_feasibility_checks rs instrs insts ps = Inr []" "inst \<in> set insts"
  shows "room_candidates rs inst \<noteq> []"
proof -
  from checks_pass_room [OF assms] obtain r where r: "r \<in> set rs" "precheck_room_ok inst r"
    unfolding found_room_iff by blast
  from r(1) obtain i where i: "i < length rs" "rs ! i = r"
    by (auto simp: in_set_conv_nth)
  from r(2) have "room_ok inst r"
    by (auto simp: room_ok_def precheck_room_ok_def)
  with i have "i \<in> set (room_candidates rs inst)"
    unfolding room_candidates_set by simp
  then show ?thesis by auto
qed

text \<open>
  Claim C10. In \<open>build_and_solve\<close>, when \<open>quick_feasibility_checks\<close> returns no errors on
  the same data, the room-candidate list computed for every occurrence is not empty, so
  the fallback that widens an empty room domain to all rooms is never taken: the room
  domain is the candidate list.
\<close>

theorem fallback_unreachable:
  assumes "quick_feasibility_checks rs instrs insts ps = Inr []"
      and "(inst, occ) \<in> set (expand_occurrences insts)"
  shows "room_candidates rs inst \<noteq> [] \<and> room_domain rs inst = room_candidates rs inst"
  using checks_pass_candidates [OF assms(1) instance_of_occurrence [OF assms(2)]]
  by (simp add: room_domain_def)

lemma ex_checks_pass: "quick_feasibility_checks ex_rooms ex_instructors ex_instances ex_params = Inr []"
  by code_simp

theorem fallback_unreachable_witness:
  "quick_feasibility_checks ex_rooms ex_instructors ex_instances ex_params = Inr []
   \<and> (lecture_instance ex_c1 ex_lecture ex_g1, 1) \<in> set (expand_occurrences ex_instances)
   \<and> room_candidates ex_rooms (lecture_instance ex_c1 ex_lecture ex_g1) \<noteq> []
   \<and> room_domain ex_rooms (lecture_instance ex_c1 ex_lecture ex_g1)
       = room_candidates ex_rooms (lecture_instance ex_c1 ex_lecture ex_g1)"
proof -
  have occ: "(lecture_instance ex_c1 ex_lecture ex_g1, 1) \<in> set (expand_occurrences ex_instances)"
    by code_simp
  from fallback_unreachable [OF ex_checks_pass occ] ex_checks_pass occ show ?thesis by simp
qed

lemma suitable_loop_step:
  "suitable_loop (room # rest) stype n lab ign =
     (if suitable_ok stype n lab ign room then room_id room # suitable_loop rest stype n lab ign
      else suitable_loop rest stype n lab ign)"
  by (auto simp: suitable_ok_def)

lemma suitable_loop_filter:
  "suitable_loop rs stype n lab ign = map room_id (filter (suitable_ok stype n lab ign) rs)"
  by (induction rs) (simp_all only: suitable_loop.simps(1) suitable_loop_step, simp_all)

lemma suitable_ok_admissible:
  assumes "suitable_ok stype n lab ign room"
  shows "(stype = ''Lecture'' \<longrightarrow> rtype room \<in> {''classroom'', ''theater'', ''hall''})
       \<and> (stype = ''Tut'' \<longrightarrow> rtype room \<in> {''classroom'', ''computer lab'', ''hall''})
       \<and> (stype = ''Lab'' \<longrightarrow> Some (rtype room) = lab)
       \<and> (stype = ''Project'' \<longrightarrow> rtype room \<in> {''hall'', ''theater'', ''classroom''})"
  using assms by (auto simp: suitable_ok_def)

lemma room_ok_admissible:
  assumes "room_ok inst r" "i_type inst = ''Lab'' \<longrightarrow> truthy_str (i_lab_type inst)"
  shows "(i_type inst = ''Lecture'' \<longrightarrow> rtype r \<in> {''classroom'', ''theater'', ''hall''})
       \<and> (i_type inst = ''Tut'' \<longrightarrow> rtype r \<in> {''classroom'', ''computer lab'', ''hall''})
       \<and> (i_type inst = ''Lab'' \<longrightarrow> Some (rtype r) = i_lab_type inst)
       \<and> (i_type inst = ''Project'' \<longrightarrow> rtype r \<in> {''hall'', ''theater'', ''classroom''})"
  using assms by (auto simp: room_ok_def valid_room_types_for_session_def)

lemma checked_domain:
  assumes "quick_feasibility_checks rs instrs insts ps = Inr []"
      and "(inst, occ) \<in> set (expand_occurrences insts)"
      and "r_idx \<in> set (room_domain rs inst)"
  shows "r_idx < length rs \<and> room_ok inst (rs ! r_idx)
         \<and> (i_type inst = ''Lab'' \<longrightarrow> truthy_str (i_lab_type inst))"
proof -
  have "inst \<in> set insts"
    using assms(2) by (rule instance_of_occurrence)
  then have "room_candidates rs inst \<noteq> []" and lab: "i_type inst = ''Lab'' \<longrightarrow> truthy_str (i_lab_type inst)"
    using assms(1) checks_pass_candidates checks_pass_room by blast+
  then have "r_idx \<in> set (room_candidates rs inst)"
    using assms(3) by (simp add: room_domain_def)
  with lab show ?thesis
    by (simp add: room_candidates_set)
qed

text \<open>
  Claim C6, as amended. In the constraint strategy, once the pre-check has passed, every
  room in the domain of \<open>room_var\<close> of an occurrence is a room of the catalogue whose type
  is admissible for the session type: classroom, theater or hall for a Lecture;
  classroom, computer lab or hall for a Tut; exactly the declared lab type for a Lab;
  hall, theater or classroom for a Project. In the backtracking scheduler, the room list
  of a session of a course without \<open>is_project\<close> is not empty only for the kinds Lecture,
  Tut and Lab, and each of its entries is the id of a room of the catalogue whose type is
  admissible in the same sense; the room list of a session of a course with
  \<open>is_project\<close> is the placeholder \<open>["N/A"]\<close>.
\<close>

theorem room_domain_types_admissible:
  "(quick_feasibility_checks rs instrs insts ps = Inr [] \<longrightarrow>
    (inst, occ) \<in> set (expand_occurrences insts) \<longrightarrow>
    r_idx \<in> set (room_domain rs inst) \<longrightarrow>
      r_idx < length rs
      \<and> (i_type inst = ''Lecture'' \<longrightarrow> rtype (rs ! r_idx) \<in> {''classroom'', ''theater'', ''hall''})
      \<and> (i_type inst = ''Tut'' \<longrightarrow> rtype (rs ! r_idx) \<in> {''classroom'', ''computer lab'', ''hall''})
      \<and> (i_type inst = ''Lab'' \<longrightarrow> Some (rtype (rs ! r_idx)) = i_lab_type inst)
      \<and> (i_type inst = ''Project'' \<longrightarrow> rtype (rs ! r_idx) \<in> {''hall'', ''theater'', ''classroom''}))
   \<and> (\<not> is_project bc \<longrightarrow> rid \<in> set (session_rooms sch bc bk n) \<longrightarrow>
      ktype bk \<in> {''Lecture'', ''Tut'', ''Lab''}
      \<and> (\<exists>room \<in> set (rooms sch). room_id room = rid
           \<and> (ktype bk = ''Lecture'' \<longrightarrow> rtype room \<in> {''classroom'', ''theater'', ''hall''})
           \<and> (ktype bk = ''Tut'' \<longrightarrow> rtype room \<in> {''classroom'', ''computer lab'', ''hall''})
           \<and> (ktype bk = ''Lab'' \<longrightarrow> Some (rtype room) = lab_type bk)))
   \<and> (is_project bc \<longrightarrow> session_rooms sch bc bk n = [''N/A''])"
proof (intro conjI impI)
  assume a: "quick_feasibility_checks rs instrs insts ps = Inr []"
    "(inst, occ) \<in> set (expand_occurrences insts)" "r_idx \<in> set (room_domain rs inst)"
  from checked_domain [OF a] have ok: "room_ok inst (rs ! r_idx)"
    "i_type inst = ''Lab'' \<longrightarrow> truthy_str (i_lab_type inst)" and "r_idx < length rs"
    by simp_all
  show "r_idx < length rs" by fact
  from room_ok_admissible [OF ok]
  show "i_type inst = ''Lecture'' \<Longrightarrow> rtype (rs ! r_idx) \<in> {''classroom'', ''theater'', ''hall''}"
    and "i_type inst = ''Tut'' \<Longrightarrow> rtype (rs ! r_idx) \<in> {''classroom'', ''computer lab'', ''hall''}"
    and "i_type inst = ''Lab'' \<Longrightarrow> Some (rtype (rs ! r_idx)) = i_lab_type inst"
    and "i_type inst = ''Project'' \<Longrightarrow> rtype (rs ! r_idx) \<in> {''hall'', ''theater'', ''classroom''}"
    by blast+
next
  assume np: "\<not> is_project bc" and rid: "rid \<in> set (session_rooms sch bc bk n)"
  then obtain room where room: "room \<in> set (rooms sch)" "room_id room = rid"
    "suitable_ok (ktype bk) n (lab_type bk) (ignore_capacity bk) room"
    by (auto simp: session_rooms_def get_suitable_rooms_def suitable_loop_filter)
  from room(3) show "ktype bk \<in> {''Lecture'', ''Tut'', ''Lab''}"
    by (auto simp: suitable_ok_def)
  from suitable_ok_admissible [OF room(3)] room(1,2)
  show "\<exists>room \<in> set (rooms sch). room_id room = rid
           \<and> (ktype bk = ''Lecture'' \<longrightarrow> rtype room \<in> {''classroom'', ''theater'', ''hall''})
           \<and> (ktype bk = ''Tut'' \<longrightarrow> rtype room \<in> {''classroom'', ''computer lab'', ''hall''})
           \<and> (ktype bk = ''Lab'' \<longrightarrow> Some (rtype room) = lab_type bk)"
    by blast
next
  assume "is_project bc"
  then show "session_rooms sch bc bk n = [''N/A'']"
    by (simp add: session_rooms_def)
qed

theorem room_domain_types_admissible_witness:
  "quick_feasibility_checks ex_rooms ex_instructors ex_instances ex_params = Inr []
   \<and> (lab_instance ex_ph ex_lab ex_s1, 0) \<in> set (expand_occurrences ex_instances)
   \<and> 2 \<in> set (room_domain ex_rooms (lab_instance ex_ph ex_lab ex_s1))
   \<and> i_type (lab_instance ex_ph ex_lab ex_s1) = ''Lab''
   \<and> Some (rtype (ex_rooms ! 2)) = i_lab_type (lab_instance ex_ph ex_lab ex_s1)
   \<and> \<not> is_project ex_course1
   \<and> ''T1'' \<in> set (session_rooms ex_sch ex_course1 ex_k_lecture 40)
   \<and> ktype ex_k_lecture = ''Lecture''
   \<and> (\<exists>room \<in> set (rooms ex_sch). room_id room = ''T1''
         \<and> rtype room \<in> {''classroom'', ''theater'', ''hall''})
   \<and> is_project ex_gp_course
   \<and> session_rooms ex_sch ex_gp_course ex_k_lecture 40 = [''N/A'']"
proof -
  have occ: "(lab_instance ex_ph ex_lab ex_s1, 0) \<in> set (expand_occurrences ex_instances)"
    by code_simp
  have dom: "2 \<in> set (room_domain ex_rooms (lab_instance ex_ph ex_lab ex_s1))"
    by code_simp
  have ty: "i_type (lab_instance ex_ph ex_lab ex_s1) = ''Lab''"
    by (simp add: lab_instance_def)
  have np: "\<not> is_project ex_course1" and kt: "ktype ex_k_lecture = ''Lecture''"
    and p: "is_project ex_gp_course"
    by (simp_all add: ex_course1_def ex_k_lecture_def ex_gp_course_def)
  have bt: "''T1'' \<in> set (session_rooms ex_sch ex_course1 ex_k_lecture 40)"
    by code_simp
  note T = room_domain_types_admissible [where rs = ex_rooms and instrs = ex_instructors
      and insts = ex_instances and ps = ex_params and inst = "lab_instance ex_ph ex_lab ex_s1"
      and occ = 0 and r_idx = 2 and sch = ex_sch and n = 40]
  note T1 = T [where bc = ex_course1 and bk = ex_k_lecture and rid = "''T1''",
      THEN conjunct1, rule_format, OF ex_checks_pass occ dom]
  note T2 = T [where bc = ex_course1 and bk = ex_k_lecture and rid = "''T1''",
      THEN conjunct2, THEN conjunct1, rule_format, OF np bt]
  note T3 = T [where bc = ex_gp_course and bk = ex_k_lecture and rid = "''T1''",
      THEN conjunct2, THEN conjunct2, rule_format, OF p]
  from T1 ty have 1: "Some (rtype (ex_rooms ! 2)) = i_lab_type (lab_instance ex_ph ex_lab ex_s1)"
    by (elim conjE) (erule mp)
  from T2 kt have 2: "\<exists>room \<in> set (rooms ex_sch). room_id room = ''T1''
         \<and> rtype room \<in> {''classroom'', ''theater'', ''hall''}"
    by (elim conjE bexE) (rule bexI, auto)
  note 3 = T3
  from ex_checks_pass occ dom ty 1 np bt kt 2 p 3 show ?thesis
    by (intro conjI)
qed

text \<open>
  The room of a graduation project in the backtracking scheduler: for the document
  \<open>ex_gp_data\<close>, whose only course has \<open>is_project\<close>, the room list of its session is
  \<open>["N/A"]\<close>, which is the id of no room of the catalogue, and every cell of the timetable
  of the successful run has the room id \<open>N/A\<close>.
\<close>

theorem project_room_placeholder:
  "is_project ex_gp_course
   \<and> init_scheduler ex_gp_data = Inr ex_gp_sch
   \<and> session_rooms ex_gp_sch ex_gp_course ex_k_lecture 40 = [''N/A'']
   \<and> map room_id (rooms ex_gp_sch) = [''R1'', ''T1'', ''PL'']
   \<and> status_of (schedule_timetable ex_gp_data ''course'' 0) = (''success'', 1)
   \<and> map fst (timetable_of (schedule_timetable ex_gp_data ''course'' 0))
        = [(''S1'', 0, 0), (''S1'', 0, 1), (''S2'', 0, 0), (''S2'', 0, 1)]
   \<and> map (a_room_id \<circ> snd) (timetable_of (schedule_timetable ex_gp_data ''course'' 0))
        = [''N/A'', ''N/A'', ''N/A'', ''N/A'']"
  by (intro conjI; code_simp)

section \<open>Empty domains\<close>

lemma found_instr_iff: "found_instr instrs inst \<longleftrightarrow> (\<exists>i \<in> set instrs. instr_ok inst i)"
  by (induction instrs) (auto simp: instr_ok_def)

lemma instr_candidates_loop_step:
  "instr_candidates_loop ((ii, instr) # rest) inst =
     (if instr_ok inst instr then ii # instr_candidates_loop rest inst
      else instr_candidates_loop rest inst)"
  by (auto simp: instr_ok_def)

lemma instr_candidates_loop_filter:
  "instr_candidates_loop xs inst = map fst (filter (\<lambda>x. instr_ok inst (snd x)) xs)"
proof (induction xs)
  case Nil
  show ?case by simp
next
  case (Cons x xs)
  obtain ii instr where x: "x = (ii, instr)" by (cases x)
  show ?case unfolding x instr_candidates_loop_step using Cons.IH by simp
qed

lemma no_instr_candidates:
  assumes "instr_candidates_loop (enumerate 0 instrs) inst = []"
  shows "\<not> found_instr instrs inst"
proof
  assume "found_instr instrs inst"
  then obtain i where i: "i \<in> set instrs" "instr_ok inst i"
    unfolding found_instr_iff by blast
  then obtain n where "n < length instrs" "instrs ! n = i"
    by (auto simp: in_set_conv_nth)
  with i have "(n, i) \<in> set (filter (\<lambda>x. instr_ok inst (snd x)) (enumerate 0 instrs))"
    by (simp add: in_set_enumerate_eq)
  then have "filter (\<lambda>x. instr_ok inst (snd x)) (enumerate 0 instrs) \<noteq> []"
    by (metis empty_iff list.set(1))
  with assms show False
    by (simp add: instr_candidates_loop_filter)
qed

lemma no_room_candidates:
  assumes "room_candidates rs inst = []"
  shows "\<not> found_room rs inst \<or> (i_type inst = ''Lab'' \<and> \<not> truthy_str (i_lab_type inst))"
proof (rule ccontr)
  assume "\<not> ?thesis"
  then have f: "found_room rs inst" and lab: "i_type inst = ''Lab'' \<longrightarrow> truthy_str (i_lab_type inst)"
    by auto
  from f obtain r where r: "r \<in> set rs" "precheck_room_ok inst r"
    unfolding found_room_iff by blast
  from r(1) obtain i where i: "i < length rs" "rs ! i = r"
    by (auto simp: in_set_conv_nth)
  from r(2) have "room_ok inst r"
    by (auto simp: room_ok_def precheck_room_ok_def)
  with i have "i \<in> set (room_candidates rs inst)"
    unfolding room_candidates_set by simp
  with assms show False by simp
qed

lemma empty_domain_errors:
  assumes "room_candidates rs inst = []
           \<or> (i_type inst \<noteq> ''Project'' \<and> instr_candidates_loop (enumerate 0 instrs) inst = [])"
  shows "instance_id inst \<in> error_instance ` set (instance_errors rs instrs base inst)"
proof -
  from assms no_room_candidates no_instr_candidates
  have "\<not> found_room rs inst \<or> (i_type inst = ''Lab'' \<and> \<not> truthy_str (i_lab_type inst))
        \<or> (i_type inst \<noteq> ''Project'' \<and> \<not> found_instr instrs inst)"
    by blast
  then show ?thesis
    by (auto simp: instance_errors_def)
qed

lemma instance_errors_named:
  "e \<in> set (instance_errors rs instrs base inst) \<Longrightarrow> error_instance e = instance_id inst"
  by (auto simp: instance_errors_def split: option.splits if_splits)

text \<open>
  Claim C5, as amended: in \<open>build_and_solve\<close> (with a non-zero base slot), if an
  instance has an empty room-candidate list, or is not a Project and has an empty
  instructor-candidate list, then the pre-check returns a list with an entry that names
  the instance, and the call returns \<open>INPUT_ERROR\<close> with that list whatever the solver
  would do (the solver is not consulted). A result other than \<open>INPUT_ERROR\<close> is returned
  only when the pre-check reported no errors.
\<close>

theorem empty_domain_input_error:
  "(base_slot_minutes ps \<noteq> 0 \<longrightarrow> inst \<in> set insts \<longrightarrow>
    (room_candidates rs inst = []
     \<or> (i_type inst \<noteq> ''Project'' \<and> instr_candidates_loop (enumerate 0 instrs) inst = [])) \<longrightarrow>
      (\<exists>errs. quick_feasibility_checks rs instrs insts ps = Inr errs
         \<and> instance_id inst \<in> error_instance ` set errs
         \<and> (\<forall>solver. build_and_solve solver rs instrs insts ps = Inr (INPUT_ERROR errs))))
   \<and> (build_and_solve solver rs instrs insts ps = Inr (SCHEDULE sched)
       \<or> build_and_solve solver rs instrs insts ps = Inr (UNSCHEDULED unscheduled) \<longrightarrow>
         quick_feasibility_checks rs instrs insts ps = Inr [])"
proof (intro conjI impI)
  assume base: "base_slot_minutes ps \<noteq> 0" and inst: "inst \<in> set insts"
    and empty: "room_candidates rs inst = []
     \<or> (i_type inst \<noteq> ''Project'' \<and> instr_candidates_loop (enumerate 0 instrs) inst = [])"
  from quick_loop_total [OF base] obtain errs
    where errs: "quick_feasibility_checks rs instrs insts ps = Inr errs"
    unfolding quick_feasibility_checks_def by blast
  then have eq: "errs = concat (map (instance_errors rs instrs (base_slot_minutes ps)) insts)"
    using quick_loop_result [of rs instrs "base_slot_minutes ps" insts "[]" errs]
    by (simp add: quick_feasibility_checks_def)
  from empty_domain_errors [OF empty, where base = "base_slot_minutes ps"] obtain e
    where e: "e \<in> set (instance_errors rs instrs (base_slot_minutes ps) inst)"
      "error_instance e = instance_id inst"
    by auto
  from e(1) inst have "e \<in> set errs"
    unfolding eq by auto
  with e(2) have named: "instance_id inst \<in> error_instance ` set errs"
    by force
  then have "errs \<noteq> []" by auto
  with errs have "\<forall>solver. build_and_solve solver rs instrs insts ps = Inr (INPUT_ERROR errs)"
    by (simp add: build_and_solve_def)
  with errs named
  show "\<exists>errs. quick_feasibility_checks rs instrs insts ps = Inr errs
         \<and> instance_id inst \<in> error_instance ` set errs
         \<and> (\<forall>solver. build_and_solve solver rs instrs insts ps = Inr (INPUT_ERROR errs))"
    by blast
next
  assume "build_and_solve solver rs instrs insts ps = Inr (SCHEDULE sched)
       \<or> build_and_solve solver rs instrs insts ps = Inr (UNSCHEDULED unscheduled)"
  then show "quick_feasibility_checks rs instrs insts ps = Inr []"
    by (auto simp: build_and_solve_def split: sum.splits if_splits)
qed

theorem empty_domain_input_error_witness:
  "base_slot_minutes ex_params \<noteq> 0
   \<and> lecture_instance ex_c1 ex_lecture ex_g1 \<in> set ex_instances
   \<and> i_type (lecture_instance ex_c1 ex_lecture ex_g1) \<noteq> ''Project''
   \<and> instr_candidates_loop (enumerate 0 [ex_ta1]) (lecture_instance ex_c1 ex_lecture ex_g1) = []
   \<and> (\<exists>errs. quick_feasibility_checks ex_rooms [ex_ta1] ex_instances ex_params = Inr errs
         \<and> instance_id (lecture_instance ex_c1 ex_lecture ex_g1) \<in> error_instance ` set errs
         \<and> (\<forall>solver. build_and_solve solver ex_rooms [ex_ta1] ex_instances ex_params
                        = Inr (INPUT_ERROR errs)))
   \<and> build_and_solve (\<lambda>m. None) ex_rooms ex_instructors ex_instances ex_params
       = Inr (UNSCHEDULED [''C1_G1_LEC'', ''C1_G1_LEC'', ''C2_G1_LEC'', ''C2_G1_LEC'',
                           ''C2_S1_TUT'', ''C2_S2_TUT'', ''PH_S1_LAB'', ''PH_S2_LAB''])
   \<and> quick_feasibility_checks ex_rooms ex_instructors ex_instances ex_params = Inr []"
proof -
  have b: "base_slot_minutes ex_params \<noteq> 0"
    by (simp add: ex_params_def BASE_SLOT_MINUTES_def)
  have i: "lecture_instance ex_c1 ex_lecture ex_g1 \<in> set ex_instances"
    by code_simp
  have t: "i_type (lecture_instance ex_c1 ex_lecture ex_g1) \<noteq> ''Project''"
    by (simp add: lecture_instance_def)
  have c: "instr_candidates_loop (enumerate 0 [ex_ta1]) (lecture_instance ex_c1 ex_lecture ex_g1) = []"
    by code_simp
  have u: "build_and_solve (\<lambda>m. None) ex_rooms ex_instructors ex_instances ex_params
       = Inr (UNSCHEDULED [''C1_G1_LEC'', ''C1_G1_LEC'', ''C2_G1_LEC'', ''C2_G1_LEC'',
                           ''C2_S1_TUT'', ''C2_S2_TUT'', ''PH_S1_LAB'', ''PH_S2_LAB''])"
    by code_simp
  have 1: "\<exists>errs. quick_feasibility_checks ex_rooms [ex_ta1] ex_instances ex_params = Inr errs
         \<and> instance_id (lecture_instance ex_c1 ex_lecture ex_g1) \<in> error_instance ` set errs
         \<and> (\<forall>solver. build_and_solve solver ex_rooms [ex_ta1] ex_instances ex_params
                        = Inr (INPUT_ERROR errs))"
    using empty_domain_input_error [of ex_params "lecture_instance ex_c1 ex_lecture ex_g1" ex_instances
      ex_rooms "[ex_ta1]"] b i t c
    by simp
  have 2: "quick_feasibility_checks ex_rooms ex_instructors ex_instances ex_params = Inr []"
    by (rule ex_checks_pass)
  from b i t c 1 u 2 show ?thesis by (intro conjI)
qed

text \<open>
  The backtracking strategies have no pre-check and no input-error result. For the
  document \<open>ex_noinstr\<close>, in which course \<open>CX\<close> has no qualified instructor, both
  strategies first place the lecture of \<open>C0\<close>, find the empty instructor list inside the
  search, undo and retry, and after 40 attempts return the status \<open>failed\<close>.
\<close>

theorem backtracker_reports_failed:
  "init_scheduler ex_noinstr = Inr ex_noinstr_sch
   \<and> get_qualified_instructors ex_noinstr_sch ''CX'' ''Lecture'' = []
   \<and> status_of (schedule_timetable ex_noinstr ''section'' 10) = (''failed'', 40)
   \<and> status_of (schedule_timetable ex_noinstr ''course'' 0) = (''failed'', 40)"
  by (intro conjI; code_simp)

section \<open>Capacity\<close>

lemma suitable_loop_ignores_count:
  "suitable_loop rs stype n lab True = suitable_loop rs stype n' lab True"
proof -
  have "suitable_ok stype n lab True = suitable_ok stype n' lab True"
    by (simp add: suitable_ok_def fun_eq_iff)
  then show ?thesis
    by (simp add: suitable_loop_filter)
qed

lemma kind_instances_ignore_flag:
  "kind_instances c (k\<lparr>in_ignore_capacity := v\<rparr>) tgs tss = kind_instances c k tgs tss"
  by (simp add: kind_instances_def project_instance_def lecture_instance_def tut_instance_def
      lab_instance_def)

text \<open>
  Claim C7, as amended. In the backtracking scheduler every room that
  \<open>_get_suitable_rooms\<close> returns has capacity at least the student count unless
  \<open>ignore_capacity\<close> is set, and with the flag set the result does not depend on the
  student count (no capacity restriction). The constraint-model generator does not read
  the flag (the instances a kind produces are the same whatever its value), and every room
  in the room domain of an occurrence whose expected student count is not zero has at
  least that capacity.
\<close>

theorem room_domain_capacity:
  "(rid \<in> set (get_suitable_rooms sch stype n lab ign) \<longrightarrow>
      (\<exists>room \<in> set (rooms sch). room_id room = rid \<and> (ign \<or> n \<le> capacity room)))
   \<and> get_suitable_rooms sch stype n lab True = get_suitable_rooms sch stype n' lab True
   \<and> kind_instances c (k\<lparr>in_ignore_capacity := v\<rparr>) tgs tss = kind_instances c k tgs tss
   \<and> (quick_feasibility_checks rs instrs insts ps = Inr [] \<longrightarrow>
      (inst, occ) \<in> set (expand_occurrences insts) \<longrightarrow>
      r_idx \<in> set (room_domain rs inst) \<longrightarrow>
        r_idx < length rs
        \<and> (expected_students inst = 0 \<or> expected_students inst \<le> capacity (rs ! r_idx)))"
proof (intro conjI impI)
  assume "rid \<in> set (get_suitable_rooms sch stype n lab ign)"
  then obtain room where "room \<in> set (rooms sch)" "room_id room = rid" "suitable_ok stype n lab ign room"
    by (auto simp: get_suitable_rooms_def suitable_loop_filter)
  then show "\<exists>room \<in> set (rooms sch). room_id room = rid \<and> (ign \<or> n \<le> capacity room)"
    by (auto simp: suitable_ok_def)
next
  show "get_suitable_rooms sch stype n lab True = get_suitable_rooms sch stype n' lab True"
    unfolding get_suitable_rooms_def by (rule suitable_loop_ignores_count)
next
  show "kind_instances c (k\<lparr>in_ignore_capacity := v\<rparr>) tgs tss = kind_instances c k tgs tss"
    by (rule kind_instances_ignore_flag)
next
  assume a: "quick_feasibility_checks rs instrs insts ps = Inr []"
    "(inst, occ) \<in> set (expand_occurrences insts)" "r_idx \<in> set (room_domain rs inst)"
  from checked_domain [OF a] show "r_idx < length rs"
    and "expected_students inst = 0 \<or> expected_students inst \<le> capacity (rs ! r_idx)"
    by (auto simp: room_ok_def)
qed

theorem room_domain_capacity_witness:
  "''R1'' \<in> set (get_suitable_rooms ex_sch ''Lecture'' 40 None False)
   \<and> (\<exists>room \<in> set (rooms ex_sch). room_id room = ''R1'' \<and> 40 \<le> capacity room)
   \<and> get_suitable_rooms ex_sch ''Lecture'' 40 None True = get_suitable_rooms ex_sch ''Lecture'' 500 None True
   \<and> kind_instances ex_ic (ex_ic_lecture\<lparr>in_ignore_capacity := None\<rparr>) ex_groups ex_sections
        = kind_instances ex_ic ex_ic_lecture ex_groups ex_sections
   \<and> quick_feasibility_checks ex_rooms ex_instructors ex_instances ex_params = Inr []
   \<and> (lecture_instance ex_c1 ex_lecture ex_g1, 0) \<in> set (expand_occurrences ex_instances)
   \<and> 0 \<in> set (room_domain ex_rooms (lecture_instance ex_c1 ex_lecture ex_g1))
   \<and> expected_students (lecture_instance ex_c1 ex_lecture ex_g1) \<le> capacity (ex_rooms ! 0)"
proof -
  have bt: "''R1'' \<in> set (get_suitable_rooms ex_sch ''Lecture'' 40 None False)"
    by code_simp
  have occ: "(lecture_instance ex_c1 ex_lecture ex_g1, 0) \<in> set (expand_occurrences ex_instances)"
    by code_simp
  have dom: "0 \<in> set (room_domain ex_rooms (lecture_instance ex_c1 ex_lecture ex_g1))"
    by code_simp
  have nz: "expected_students (lecture_instance ex_c1 ex_lecture ex_g1) \<noteq> 0"
    by (simp add: lecture_instance_def ex_g1_def)
  from room_domain_capacity [where rid = "''R1''" and sch = ex_sch and stype = "''Lecture''" and n = 40
      and lab = None and ign = False and n' = 500 and c = ex_ic and k = ex_ic_lecture and v = None
      and tgs = ex_groups and tss = ex_sections and rs = ex_rooms and instrs = ex_instructors
      and insts = ex_instances and ps = ex_params
      and inst = "lecture_instance ex_c1 ex_lecture ex_g1" and occ = 0 and r_idx = 0]
    bt occ dom nz ex_checks_pass
  show ?thesis by simp
qed

text \<open>
  The constraint-model generator does not read \<open>ignore_capacity\<close>. The lecture of course
  \<open>IC\<close> sets the flag, its group has 40 students and the only room is a theater with 30
  seats: the theater is still dropped from the room candidates for its capacity, and the
  pre-check reports that there is no compatible room.
\<close>

theorem ignore_capacity_not_read:
  "in_ignore_capacity ex_ic_lecture = Some True
   \<and> generate_instances [ex_ic] ex_groups ex_sections = [lecture_instance ex_ic ex_ic_lecture ex_g1]
   \<and> rtype ex_small_theater \<in> set (valid_room_types_for_session ''Lecture'')
   \<and> room_candidates [ex_small_theater] (lecture_instance ex_ic ex_ic_lecture ex_g1) = []
   \<and> quick_feasibility_checks [ex_small_theater] [ex_p2]
        (generate_instances [ex_ic] ex_groups ex_sections) ex_params
        = Inr [NoCompatibleRoom ''IC_G1_LEC'']"
  by (intro conjI; code_simp)

section \<open>Lecture occurrences\<close>

lemma extract_loop_ids:
  "extract_loop rs instrs m sol idxs = Inr sched \<Longrightarrow>
   map (\<lambda>r. (rec_instance_id r, rec_course_id r, rec_type r)) sched =
   map (\<lambda>idx. (instance_id (fst (m_occurrences m ! idx)) @ occ_suffix (snd (m_occurrences m ! idx)),
                i_course_id (fst (m_occurrences m ! idx)), i_type (fst (m_occurrences m ! idx)))) idxs"
proof (induction idxs arbitrary: sched)
  case Nil
  then show ?case by simp
next
  case (Cons idx idxs)
  from Cons.prems obtain r rest where r: "extract_record rs instrs m sol idx = Inr r"
    and rest: "extract_loop rs instrs m sol idxs = Inr rest" and sched: "sched = r # rest"
    by (auto split: sum.splits)
  from r have "rec_instance_id r = instance_id (fst (m_occurrences m ! idx)) @ occ_suffix (snd (m_occurrences m ! idx))"
    "rec_course_id r = i_course_id (fst (m_occurrences m ! idx))"
    "rec_type r = i_type (fst (m_occurrences m ! idx))"
    by (auto simp: extract_record_def Let_def split: sum.splits option.splits)
  with Cons.IH [OF rest] sched show ?case by simp
qed

lemma build_model_occurrences:
  "build_model rs instrs insts ps = Inr m \<Longrightarrow> m_occurrences m = expand_occurrences insts"
  by (auto simp: build_model_def Let_def split: if_splits sum.splits)

lemma schedule_records:
  assumes "build_and_solve solver rs instrs insts ps = Inr (SCHEDULE sched)"
  shows "map (\<lambda>r. (rec_instance_id r, rec_course_id r, rec_type r)) sched =
         map (\<lambda>oc. (instance_id (fst oc) @ occ_suffix (snd oc), i_course_id (fst oc), i_type (fst oc)))
           (expand_occurrences insts)"
proof -
  from assms obtain m sol where m: "build_model rs instrs insts ps = Inr m"
    and ex: "extract_loop rs instrs m sol [0..<length (m_occurrences m)] = Inr sched"
    by (auto simp: build_and_solve_def split: sum.splits if_splits option.splits)
  let ?f = "\<lambda>oc :: session_instance \<times> int.
      (instance_id (fst oc) @ occ_suffix (snd oc), i_course_id (fst oc), i_type (fst oc))"
  have "map (\<lambda>idx. ?f (m_occurrences m ! idx)) [0..<length (m_occurrences m)]
        = map ?f (map ((!) (m_occurrences m)) [0..<length (m_occurrences m)])"
    by (simp only: map_map comp_def)
  also have "\<dots> = map ?f (m_occurrences m)"
    by (simp only: map_nth)
  finally have "map (\<lambda>idx. ?f (m_occurrences m ! idx)) [0..<length (m_occurrences m)]
        = map ?f (expand_occurrences insts)"
    by (simp only: build_model_occurrences [OF m])
  with extract_loop_ids [OF ex] show ?thesis
    by simp
qed

lemma generate_instances_kinds:
  "generate_instances cs gs ss =
     concat (map (\<lambda>c. concat (map (\<lambda>k. kind_instances c k (cp_target_groups c gs)
                                          (cp_target_sections (cp_target_groups c gs) ss))
                                 (in_kinds c))) cs)"
  by (simp add: generate_instances_def course_instances_def Let_def)

lemma expand_lecture_instances:
  "expand_occurrences (map (lecture_instance c k) tgs) =
     concat (map (\<lambda>g. map (\<lambda>occ. (lecture_instance c k g, occ))
                          (py_range 0 (dict_get (in_sessions_per_week k) 2))) tgs)"
  by (simp add: expand_occurrences_def lecture_instance_def dict_get_def comp_def)

text \<open>
  Claim C2, as amended. In the constraint strategy the instances are those of the kinds
  of the courses, each for the eligible groups of its course (the year matches; the major
  matches or is null); a Lecture kind of a non-project course gives one instance per
  eligible group, which \<open>build_and_solve\<close> expands into \<open>sessions_per_week\<close>
  occurrences (2 when the kind does not declare the count); and the records of every
  schedule that \<open>build_and_solve\<close> returns are, in order, those of the occurrences
  expanded from the instance list. The backtracking scheduler lists, for a Lecture kind
  of a course that is neither a project nor full-year, one session per eligible group,
  and the kind it works with does not depend on \<open>sessions_per_week\<close>.
\<close>

theorem lecture_occurrences:
  "generate_instances cs gs ss =
     concat (map (\<lambda>c. concat (map (\<lambda>k. kind_instances c k (cp_target_groups c gs)
                                          (cp_target_sections (cp_target_groups c gs) ss))
                                 (in_kinds c))) cs)
   \<and> cp_target_groups c gs =
       filter (\<lambda>g. gyear g = in_year c \<and> (in_major c = None \<or> specialization g = in_major c)) gs
   \<and> (\<not> dict_get (in_is_project c) False \<longrightarrow> in_type k = ''Lecture'' \<longrightarrow>
        kind_instances c k (cp_target_groups c gs) tss = map (lecture_instance c k) (cp_target_groups c gs)
        \<and> expand_occurrences (kind_instances c k (cp_target_groups c gs) tss) =
            concat (map (\<lambda>g. map (\<lambda>occ. (lecture_instance c k g, occ))
                                 (py_range 0 (dict_get (in_sessions_per_week k) 2)))
                      (cp_target_groups c gs)))
   \<and> (build_and_solve solver rs instrs insts ps = Inr (SCHEDULE sched) \<longrightarrow>
        map (\<lambda>r. (rec_instance_id r, rec_course_id r, rec_type r)) sched =
        map (\<lambda>oc. (instance_id (fst oc) @ occ_suffix (snd oc), i_course_id (fst oc), i_type (fst oc)))
          (expand_occurrences insts))
   \<and> (\<not> is_project bc \<longrightarrow> \<not> full_year bc \<longrightarrow> ktype bk = ''Lecture'' \<longrightarrow>
        get_target_sections sch bc bk reference_section =
          Inr (map (\<lambda>g. map section_id (sections_by_group sch (group_id g)))
                 (filter (\<lambda>g. gyear g = cyear bc \<and> (major bc = None \<or> specialization g = major bc))
                    (groups sch))))
   \<and> parse_kind (k\<lparr>in_sessions_per_week := v\<rparr>) = parse_kind k"
proof (intro conjI impI)
  show "parse_kind (k\<lparr>in_sessions_per_week := v\<rparr>) = parse_kind k"
    by (simp add: parse_kind_def split: option.splits)
  show "generate_instances cs gs ss =
     concat (map (\<lambda>c. concat (map (\<lambda>k. kind_instances c k (cp_target_groups c gs)
                                          (cp_target_sections (cp_target_groups c gs) ss))
                                 (in_kinds c))) cs)"
    by (rule generate_instances_kinds)
  show "cp_target_groups c gs =
       filter (\<lambda>g. gyear g = in_year c \<and> (in_major c = None \<or> specialization g = in_major c)) gs"
    by (simp add: cp_target_groups_def)
next
  assume a: "\<not> dict_get (in_is_project c) False" "in_type k = ''Lecture''"
  then show 1: "kind_instances c k (cp_target_groups c gs) tss =
      map (lecture_instance c k) (cp_target_groups c gs)"
    by (simp add: kind_instances_def)
  show "expand_occurrences (kind_instances c k (cp_target_groups c gs) tss) =
            concat (map (\<lambda>g. map (\<lambda>occ. (lecture_instance c k g, occ))
                                 (py_range 0 (dict_get (in_sessions_per_week k) 2)))
                      (cp_target_groups c gs))"
    unfolding 1 by (rule expand_lecture_instances)
next
  assume "build_and_solve solver rs instrs insts ps = Inr (SCHEDULE sched)"
  then show "map (\<lambda>r. (rec_instance_id r, rec_course_id r, rec_type r)) sched =
        map (\<lambda>oc. (instance_id (fst oc) @ occ_suffix (snd oc), i_course_id (fst oc), i_type (fst oc)))
          (expand_occurrences insts)"
    by (rule schedule_records)
next
  assume "\<not> is_project bc" "\<not> full_year bc" "ktype bk = ''Lecture''"
  then show "get_target_sections sch bc bk reference_section =
          Inr (map (\<lambda>g. map section_id (sections_by_group sch (group_id g)))
                 (filter (\<lambda>g. gyear g = cyear bc \<and> (major bc = None \<or> specialization g = major bc))
                    (groups sch)))"
    by (simp add: get_target_sections_def)
qed

lemma ex_c1_solved:
  "build_and_solve (\<lambda>m. Some ex_c1_solution) ex_rooms ex_instructors ex_c1_instances ex_params
     = Inr (SCHEDULE ex_c1_schedule)"
  by code_simp

theorem lecture_occurrences_witness:
  "\<not> dict_get (in_is_project ex_c1) False \<and> in_type ex_lecture = ''Lecture''
   \<and> kind_instances ex_c1 ex_lecture (cp_target_groups ex_c1 ex_groups) ex_sections
        = map (lecture_instance ex_c1 ex_lecture) (cp_target_groups ex_c1 ex_groups)
   \<and> expand_occurrences (kind_instances ex_c1 ex_lecture (cp_target_groups ex_c1 ex_groups) ex_sections)
        = [(lecture_instance ex_c1 ex_lecture ex_g1, 0), (lecture_instance ex_c1 ex_lecture ex_g1, 1)]
   \<and> build_and_solve (\<lambda>m. Some ex_c1_solution) ex_rooms ex_instructors ex_c1_instances ex_params
        = Inr (SCHEDULE ex_c1_schedule)
   \<and> map (\<lambda>r. (rec_instance_id r, rec_course_id r, rec_type r)) ex_c1_schedule =
        map (\<lambda>oc. (instance_id (fst oc) @ occ_suffix (snd oc), i_course_id (fst oc), i_type (fst oc)))
          (expand_occurrences ex_c1_instances)
   \<and> \<not> is_project ex_course1 \<and> \<not> full_year ex_course1 \<and> ktype ex_k_lecture = ''Lecture''
   \<and> get_target_sections ex_sch ex_course1 ex_k_lecture ex_s1 = Inr [[''S1'', ''S2'']]"
proof -
  have a: "\<not> dict_get (in_is_project ex_c1) False" "in_type ex_lecture = ''Lecture''"
    by (simp_all add: ex_c1_def ex_lecture_def dict_get_def)
  have b: "\<not> is_project ex_course1" "\<not> full_year ex_course1" "ktype ex_k_lecture = ''Lecture''"
    by (simp_all add: ex_course1_def ex_k_lecture_def)
  have g: "cp_target_groups ex_c1 ex_groups = [ex_g1]"
    by (simp add: cp_target_groups_def ex_c1_def ex_groups_def ex_g1_def)
  have r: "py_range 0 (dict_get (in_sessions_per_week ex_lecture) 2) = [0, 1]"
    by (simp add: py_range_def ex_lecture_def dict_get_def upto_rec1)
  have t: "map (\<lambda>g. map section_id (sections_by_group ex_sch (group_id g)))
                 (filter (\<lambda>g. gyear g = cyear ex_course1
                     \<and> (major ex_course1 = None \<or> specialization g = major ex_course1))
                    (groups ex_sch)) = [[''S1'', ''S2'']]"
    by code_simp
  note T = lecture_occurrences [where c = ex_c1 and k = ex_lecture and gs = ex_groups and tss = ex_sections
      and solver = "\<lambda>m. Some ex_c1_solution" and rs = ex_rooms and instrs = ex_instructors
      and insts = ex_c1_instances and ps = ex_params and sched = ex_c1_schedule
      and bc = ex_course1 and bk = ex_k_lecture and sch = ex_sch and reference_section = ex_s1]
  from T a have k1: "kind_instances ex_c1 ex_lecture (cp_target_groups ex_c1 ex_groups) ex_sections
        = map (lecture_instance ex_c1 ex_lecture) (cp_target_groups ex_c1 ex_groups)"
    and k2: "expand_occurrences (kind_instances ex_c1 ex_lecture (cp_target_groups ex_c1 ex_groups) ex_sections)
        = concat (map (\<lambda>g. map (\<lambda>occ. (lecture_instance ex_c1 ex_lecture g, occ))
                                 (py_range 0 (dict_get (in_sessions_per_week ex_lecture) 2)))
                      (cp_target_groups ex_c1 ex_groups))"
    by blast+
  from T ex_c1_solved have s: "map (\<lambda>r. (rec_instance_id r, rec_course_id r, rec_type r)) ex_c1_schedule =
        map (\<lambda>oc. (instance_id (fst oc) @ occ_suffix (snd oc), i_course_id (fst oc), i_type (fst oc)))
          (expand_occurrences ex_c1_instances)"
    by blast
  from T b have "get_target_sections ex_sch ex_course1 ex_k_lecture ex_s1 =
          Inr (map (\<lambda>g. map section_id (sections_by_group ex_sch (group_id g)))
                 (filter (\<lambda>g. gyear g = cyear ex_course1
                     \<and> (major ex_course1 = None \<or> specialization g = major ex_course1))
                    (groups ex_sch)))"
    by blast
  then have ts: "get_target_sections ex_sch ex_course1 ex_k_lecture ex_s1 = Inr [[''S1'', ''S2'']]"
    by (simp only: t)
  have k2': "expand_occurrences (kind_instances ex_c1 ex_lecture (cp_target_groups ex_c1 ex_groups) ex_sections)
        = [(lecture_instance ex_c1 ex_lecture ex_g1, 0), (lecture_instance ex_c1 ex_lecture ex_g1, 1)]"
    using k2 by (simp only: g r list.map concat.simps append_Nil2 append_Nil)
  from a b k1 k2' ex_c1_solved s ts show ?thesis
    by (intro conjI)
qed

text \<open>
  The backtracking scheduler does not read \<open>sessions_per_week\<close>. Course \<open>C1\<close> has one
  lecture kind that declares no count, so the default 2 applies and the constraint
  strategy has two occurrences of it; \<open>_get_all_sessions_to_schedule\<close> lists the lecture
  once, and the timetable of the successful run of either strategy holds one lecture of
  \<open>C1\<close>, in sub-slots 0 and 1 of the first day.
\<close>

theorem backtracker_schedules_lecture_once:
  "in_sessions_per_week ex_lecture = None
   \<and> map (instance_id \<circ> fst) (expand_occurrences ex_c1_instances) = [''C1_G1_LEC'', ''C1_G1_LEC'']
   \<and> map snd (expand_occurrences ex_c1_instances) = [0, 1]
   \<and> init_scheduler ex_c1_data = Inr ex_c1_sch
   \<and> get_all_sessions_to_schedule ex_c1_sch = Inr [(ex_course1, ex_k_lecture, [''S1'', ''S2''])]
   \<and> status_of (schedule_timetable ex_c1_data ''course'' 0) = (''success'', 1)
   \<and> map fst (timetable_of (schedule_timetable ex_c1_data ''course'' 0))
        = [(''S1'', 0, 0), (''S1'', 0, 1), (''S2'', 0, 0), (''S2'', 0, 1)]
   \<and> map (a_period \<circ> snd) (timetable_of (schedule_timetable ex_c1_data ''course'' 0)) = [0, 0, 0, 0]
   \<and> map (a_duration \<circ> snd) (timetable_of (schedule_timetable ex_c1_data ''course'' 0)) = [2, 2, 2, 2]
   \<and> status_of (schedule_timetable ex_c1_data ''section'' 5) = (''success'', 1)
   \<and> map fst (timetable_of (schedule_timetable ex_c1_data ''section'' 5))
        = [(''S1'', 0, 0), (''S1'', 0, 1), (''S2'', 0, 0), (''S2'', 0, 1)]"
  by (intro conjI; code_simp)

section \<open>Graduation projects\<close>












section \<open>What the backtracking search keeps of the timetable\<close>

lemma candidates_range:
  "(d, p, i, r) \<in> set (candidates qualified suitable) \<Longrightarrow> 0 \<le> d \<and> d < DAYS \<and> 0 \<le> p \<and> p < PERIODS_PER_DAY"
  by (auto simp: candidates_def set_py_range)

lemma timetable_ok_counters [simp]:
  "timetable_ok (st\<lparr>attempts := n\<rparr>) = timetable_ok st"
  "timetable_ok (st\<lparr>backtracks := n\<rparr>) = timetable_ok st"
  "timetable_ok (st\<lparr>scheduled_sessions := ss\<rparr>) = timetable_ok st"
  by (simp_all add: timetable_ok_def)

lemma valid_counters [simp]:
  "is_valid_assignment (st\<lparr>attempts := n\<rparr>) secs d p dur i r = is_valid_assignment st secs d p dur i r"
  by (simp add: is_valid_assignment_def)

lemma place_ok:
  assumes ok: "timetable_ok st" and v: "is_valid_assignment st secs d p dur i r"
    and range: "0 \<le> d" "d < DAYS" "0 \<le> p"
  shows "timetable_ok (place_assignment st (new_assignment cid stype secs dur d p i r))"
proof -
  let ?a = "new_assignment cid stype secs dur d p i r"
  have v': "is_valid_assignment st (a_sections ?a) (a_day ?a) (a_period ?a) (a_duration ?a)
      (a_instructor_id ?a) (a_room_id ?a)"
    using v by (simp add: new_assignment_def)
  from timetable_place [OF valid_cells_free [OF v']] obtain new where
    new: "timetable (place_assignment st ?a) = timetable st @ new" "fst ` set new = cells_of ?a"
      "snd ` set new \<subseteq> {?a}"
    by blast
  have "well_placed (snd e)" if e: "e \<in> set new" for e
  proof -
    from e new(3) have s: "snd e = ?a" by auto
    from e new(2) have "fst e \<in> cells_of ?a" by auto
    then have "1 \<le> dur"
      by (auto simp: cells_of_def new_assignment_def)
    moreover from v have "p + dur \<le> PERIODS_PER_DAY" "dur = 2 \<longrightarrow> p mod 2 = 0"
      by (auto simp: is_valid_assignment_def split: if_splits)
    ultimately show ?thesis
      using range unfolding s by (simp add: well_placed_def new_assignment_def)
  qed
  with ok show ?thesis
    by (auto simp: timetable_ok_def new(1))
qed

lemma remove_ok: "timetable_ok st \<Longrightarrow> timetable_ok (remove_assignment st a)"
  by (simp add: timetable_ok_def timetable_remove)

lemma try_placements_ok:
  fixes k :: "state \<Rightarrow> bool \<times> state"
  shows "(\<forall>s. timetable_ok s \<longrightarrow> timetable_ok (snd (k s))) \<Longrightarrow>
         (\<forall>c \<in> set cs. 0 \<le> fst c \<and> fst c < DAYS \<and> 0 \<le> fst (snd c)) \<Longrightarrow> timetable_ok st \<Longrightarrow>
         timetable_ok (snd (try_placements k cid stype secs dur st cs))"
    and "(\<forall>s. timetable_ok s \<longrightarrow> timetable_ok (snd (k s))) \<Longrightarrow>
         (\<forall>c \<in> set rest. 0 \<le> fst c \<and> fst c < DAYS \<and> 0 \<le> fst (snd c)) \<Longrightarrow> timetable_ok (snd res) \<Longrightarrow>
         timetable_ok (snd (resume_placements k cid stype secs dur a rest res))"
proof (induction k cid stype secs dur st cs and k cid stype secs dur a rest res
    rule: try_placements_resume_placements.induct)
  case (1 k cid stype secs dur st)
  then show ?case by simp
next
  case (2 k cid stype secs dur st d p i r rest)
  show ?case
  proof (cases "is_valid_assignment st secs d p dur i r")
    case False
    with 2 show ?thesis by simp
  next
    case True
    from "2.prems"(2) have range: "0 \<le> d" "d < DAYS" "0 \<le> p" by simp_all
    have "timetable_ok (place_assignment (st\<lparr>attempts := attempts st + 1\<rparr>)
        (new_assignment cid stype secs dur d p i r))"
      by (rule place_ok) (use True "2.prems"(3) range in simp_all)
    with "2.prems"(1) have "timetable_ok (snd (k (place_assignment (st\<lparr>attempts := attempts st + 1\<rparr>)
        (new_assignment cid stype secs dur d p i r))))"
      by blast
    with 2 True show ?thesis by simp
  qed
next
  case (3 k cid stype secs dur a rest ok st3)
  then show ?case
    by (auto simp: remove_ok)
qed

lemma solve_by_course_ok:
  "timetable_ok st \<Longrightarrow> timetable_ok (snd (solve_by_course sch ss st))"
proof (induction ss arbitrary: st)
  case Nil
  then show ?case by simp
next
  case (Cons s ss)
  obtain c k ts where s: "s = (c, k, ts)" by (cases s)
  have k: "\<forall>s. timetable_ok s \<longrightarrow> timetable_ok (snd (solve_by_course sch ss s))"
    using Cons.IH by blast
  have r: "\<forall>c \<in> set (candidates q su). 0 \<le> fst c \<and> fst c < DAYS \<and> 0 \<le> fst (snd c)" for q su
    using candidates_range by force
  show ?case
    unfolding s using Cons.prems Cons.IH try_placements_ok(1) [OF k r]
    by (simp add: Let_def)
qed

lemma section_placements_ok:
  fixes k :: "state \<Rightarrow> outcome"
  shows "(\<forall>s. timetable_ok s \<longrightarrow> outcome_ok (k s)) \<Longrightarrow>
         (\<forall>c \<in> set cs. 0 \<le> fst c \<and> fst c < DAYS \<and> 0 \<le> fst (snd c)) \<Longrightarrow> timetable_ok st \<Longrightarrow>
         outcome_ok (section_placements k cid stype secs dur st cs)"
    and "(\<forall>s. timetable_ok s \<longrightarrow> outcome_ok (k s)) \<Longrightarrow>
         (\<forall>c \<in> set rest. 0 \<le> fst c \<and> fst c < DAYS \<and> 0 \<le> fst (snd c)) \<Longrightarrow> outcome_ok res \<Longrightarrow>
         outcome_ok (resume_section k cid stype secs dur a rest res)"
proof (induction k cid stype secs dur st cs and k cid stype secs dur a rest res
    rule: section_placements_resume_section.induct)
  case (1 k cid stype secs dur st)
  then show ?case by simp
next
  case (2 k cid stype secs dur st d p i r rest)
  show ?case
  proof (cases "is_valid_assignment st secs d p dur i r")
    case False
    with 2 show ?thesis by simp
  next
    case True
    from "2.prems"(2) have range: "0 \<le> d" "d < DAYS" "0 \<le> p" by simp_all
    have "timetable_ok (place_assignment (st\<lparr>attempts := attempts st + 1\<rparr>)
        (new_assignment cid stype secs dur d p i r))"
      by (rule place_ok) (use True "2.prems"(3) range in simp_all)
    with "2.prems"(1) have "outcome_ok (k (place_assignment (st\<lparr>attempts := attempts st + 1\<rparr>)
        (new_assignment cid stype secs dur d p i r)))"
      by blast
    with 2 True show ?thesis by simp
  qed
next
  case (3 k cid stype secs dur a rest)
  then show ?case by simp
next
  case (4 k cid stype secs dur a rest e st3)
  then show ?case by simp
next
  case (5 k cid stype secs dur a rest ok st3)
  then show ?case
    by (auto simp: remove_ok)
qed

lemma section_kinds_ok:
  assumes rec: "\<forall>idx s. timetable_ok s \<longrightarrow> outcome_ok (rec idx s)" and st: "timetable_ok st"
  shows "section_kinds rec sch idx section c st ks = Some res \<Longrightarrow> outcome_ok res"
proof (induction ks)
  case Nil
  then show ?case by simp
next
  case (Cons k ks)
  have r: "\<forall>c \<in> set (candidates q su). 0 \<le> fst c \<and> fst c < DAYS \<and> 0 \<le> fst (snd c)" for q su
    using candidates_range by force
  have k: "\<forall>s. timetable_ok s \<longrightarrow> outcome_ok (rec idx s)"
    using rec by blast
  note p = section_placements_ok(1) [OF k r st]
  from Cons.prems Cons.IH rec st p show ?case
    by (auto simp: Let_def split: if_splits sum.splits list.splits)
qed

lemma section_courses_ok:
  assumes rec: "\<forall>idx s. timetable_ok s \<longrightarrow> outcome_ok (rec idx s)" and st: "timetable_ok st"
  shows "section_courses rec sch idx section st cs = Some res \<Longrightarrow> outcome_ok res"
proof (induction cs)
  case Nil
  then show ?case by simp
next
  case (Cons c cs)
  from Cons.prems Cons.IH section_kinds_ok [OF rec st] show ?case
    by (auto split: if_splits option.splits)
qed

lemma solve_by_section_ok:
  "timetable_ok st \<Longrightarrow> outcome_ok (solve_by_section sch fuel idx st)"
proof (induction fuel arbitrary: idx st)
  case 0
  then show ?case by simp
next
  case (Suc fuel)
  have rec: "\<forall>idx s. timetable_ok s \<longrightarrow> outcome_ok (solve_by_section sch fuel idx s)"
    using Suc.IH by blast
  from Suc.prems Suc.IH section_courses_ok [OF rec Suc.prems] show ?case
    by (auto simp: Let_def split: sum.splits option.splits)
qed

lemma init_state_ok: "timetable_ok init_state"
  by (simp add: timetable_ok_def init_state_def)

lemma solve_ok: "outcome_ok (solve sch strategy fuel)"
  using solve_by_section_ok [OF init_state_ok] solve_by_course_ok [OF init_state_ok]
  by (auto simp: solve_def init_state_ok split: sum.splits prod.splits)
    (metis snd_conv)

lemma schedule_well_placed:
  assumes "e \<in> set (timetable_of (schedule_timetable data strategy fuel))"
  shows "well_placed (snd e)"
proof -
  from assms obtain sch st where "solve sch strategy fuel = Returned True st" "e \<in> set (timetable st)"
    by (auto simp: schedule_timetable_def split: sum.splits outcome.splits if_splits)
  with solve_ok [of sch strategy fuel] show ?thesis
    by (simp add: timetable_ok_def)
qed

section \<open>Alignment\<close>

text \<open>
  Claim C4, as amended. In the backtracking scheduler, every placement of duration
  exactly 2 sub-slots that \<open>_is_valid_assignment\<close> accepts starts at an even period, and
  every assignment of duration 2 in the timetable of a successful run, of either
  strategy, starts at an even period.
\<close>

theorem duration_two_aligned:
  "(is_valid_assignment st secs d p 2 i r \<longrightarrow> p mod 2 = 0)
   \<and> (e \<in> set (timetable_of (schedule_timetable data strategy fuel)) \<longrightarrow>
       a_duration (snd e) = 2 \<longrightarrow> a_period (snd e) mod 2 = 0)"
proof (intro conjI impI)
  assume "is_valid_assignment st secs d p 2 i r"
  then show "p mod 2 = 0"
    by (auto simp: is_valid_assignment_def split: if_splits)
next
  assume "e \<in> set (timetable_of (schedule_timetable data strategy fuel))" "a_duration (snd e) = 2"
  with schedule_well_placed show "a_period (snd e) mod 2 = 0"
    unfolding well_placed_def by blast
qed

theorem duration_two_aligned_witness:
  "is_valid_assignment init_state [''S1''] 0 4 2 ''P1'' ''R1'' \<and> (4::int) mod 2 = 0
   \<and> ((''S2'', 0, 1), new_assignment ''C1'' ''Lecture'' [''S1'', ''S2''] 2 0 0 ''P1'' ''R1'')
        \<in> set (timetable_of (schedule_timetable ex_c1_data ''section'' 5))
   \<and> a_duration (new_assignment ''C1'' ''Lecture'' [''S1'', ''S2''] 2 0 0 ''P1'' ''R1'') = 2
   \<and> a_period (new_assignment ''C1'' ''Lecture'' [''S1'', ''S2''] 2 0 0 ''P1'' ''R1'') mod 2 = 0"
proof -
  have v: "is_valid_assignment init_state [''S1''] 0 4 2 ''P1'' ''R1''"
    by code_simp
  have m: "((''S2'', 0, 1), new_assignment ''C1'' ''Lecture'' [''S1'', ''S2''] 2 0 0 ''P1'' ''R1'')
        \<in> set (timetable_of (schedule_timetable ex_c1_data ''section'' 5))"
    by code_simp
  have d: "a_duration (new_assignment ''C1'' ''Lecture'' [''S1'', ''S2''] 2 0 0 ''P1'' ''R1'') = 2"
    by (simp add: new_assignment_def)
  note T = duration_two_aligned [where st = init_state and secs = "[''S1'']" and d = 0 and p = 4
      and i = "''P1''" and r = "''R1''"
      and e = "((''S2'', 0, 1), new_assignment ''C1'' ''Lecture'' [''S1'', ''S2''] 2 0 0 ''P1'' ''R1'')"
      and data = ex_c1_data and strategy = "''section''" and fuel = 5]
  from T [THEN conjunct1, rule_format, OF v] have 1: "(4::int) mod 2 = 0" .
  from T [THEN conjunct2, rule_format, OF m] d
  have 2: "a_period (new_assignment ''C1'' ''Lecture'' [''S1'', ''S2''] 2 0 0 ''P1'' ''R1'') mod 2 = 0"
    by simp
  from v 1 m d 2 show ?thesis by (intro conjI)
qed

text \<open>
  Two starts at odd sub-slots. In the backtracking scheduler the check is
  \<open>duration == 2\<close>: with one section, a tutorial of 45 minutes and a lecture of 135
  minutes, the course strategy puts the tutorial in sub-slot 0 and the lecture, of
  duration 3, in sub-slots 1 to 3 of the first day. The start domains of the constraint
  model have no alignment rule: the values that start the two lectures of course \<open>C1\<close>,
  of 2 sub-slots each, at sub-slots 1 and 3 satisfy the model, and \<open>build_and_solve\<close>
  returns them as the schedule.
\<close>

theorem odd_starts_accepted:
  "status_of (schedule_timetable ex_odd_data ''course'' 0) = (''success'', 4)
   \<and> map fst (timetable_of (schedule_timetable ex_odd_data ''course'' 0))
        = [(''S1'', 0, 0), (''S1'', 0, 1), (''S1'', 0, 2), (''S1'', 0, 3)]
   \<and> map (a_session_type \<circ> snd) (timetable_of (schedule_timetable ex_odd_data ''course'' 0))
        = [''Tut'', ''Lecture'', ''Lecture'', ''Lecture'']
   \<and> map (a_period \<circ> snd) (timetable_of (schedule_timetable ex_odd_data ''course'' 0))
        = [0, 1, 1, 1]
   \<and> map (a_duration \<circ> snd) (timetable_of (schedule_timetable ex_odd_data ''course'' 0))
        = [1, 3, 3, 3]
   \<and> quick_feasibility_checks ex_rooms ex_instructors ex_c1_instances ex_params = Inr []
   \<and> build_model ex_rooms ex_instructors ex_c1_instances ex_params = Inr ex_c1_model
   \<and> satisfies ex_c1_model ex_odd_solution
   \<and> build_and_solve ex_odd_solver ex_rooms ex_instructors ex_c1_instances ex_params
        = Inr (SCHEDULE ex_odd_schedule)
   \<and> map start_subslot_index ex_odd_schedule = [1, 3]
   \<and> map length_subslots ex_odd_schedule = [2, 2]"
  by (intro conjI; code_simp)

section \<open>Day containment\<close>







section \<open>Student exclusion\<close>

lemma ex_clash_generated:
  "ex_clash_instances = map fst (m_occurrences ex_clash_model)"
  by code_simp

lemma ex_clash_checked:
  "quick_feasibility_checks ex_rooms ex_instructors ex_clash_instances ex_clash_params = Inr []"
  by code_simp

lemma ex_clash_built:
  "build_model ex_rooms ex_instructors ex_clash_instances ex_clash_params = Inr ex_clash_model"
  by code_simp

lemma ex_clash_satisfied: "satisfies ex_clash_model ex_clash_solution"
  by code_simp

lemma ex_clash_returned:
  "build_and_solve (\<lambda>m. Some ex_clash_solution) ex_rooms ex_instructors ex_clash_instances ex_clash_params
     = Inr (SCHEDULE ex_clash_schedule)"
  by code_simp

lemma ex_clash_starts:
  assumes "satisfies ex_clash_model sol"
  shows "sol_start sol ! 0 = 0 \<and> (sol_start sol ! 1 = 0 \<or> sol_start sol ! 1 = 1)"
proof -
  have "var_constraints ex_clash_model sol 0" "var_constraints ex_clash_model sol 1"
    using assms by (simp_all add: satisfies_def Let_def ex_clash_model_def upt_rec)
  then show ?thesis
    by (simp add: var_constraints_def ex_clash_model_def)
qed

text \<open>
  Claim C1 in the constraint strategy: the lecture of group \<open>G1\<close> and the tutorial of its
  section \<open>S1\<close> share the students of \<open>S1\<close>, but \<open>share_students\<close> compares a group id
  only with a group id and a section id only with a section id, so the model has no
  exclusion constraint for the pair. On this input the pre-check reports nothing, the
  model has a solution, every solution of the model overlaps the two occurrences, and the
  schedule returned for the solution shown holds both from sub-slot 0.
\<close>

theorem lecture_tutorial_overlap:
  "map (\<lambda>i. (instance_id i, i_group_id i, i_section_id i)) ex_clash_instances
     = [(''C2_G1_LEC'', Some ''G1'', None), (''C2_S1_TUT'', None, Some ''S1'')]
   \<and> s_group_id ex_s1 = ''G1''
   \<and> \<not> share_students (ex_clash_instances ! 0) (ex_clash_instances ! 1)
   \<and> quick_feasibility_checks ex_rooms ex_instructors ex_clash_instances ex_clash_params = Inr []
   \<and> build_model ex_rooms ex_instructors ex_clash_instances ex_clash_params = Inr ex_clash_model
   \<and> satisfies ex_clash_model ex_clash_solution
   \<and> (satisfies ex_clash_model sol \<longrightarrow>
        \<not> no_overlap (sol_start sol ! 0) (m_needed ex_clash_model ! 0)
            (sol_start sol ! 1) (m_needed ex_clash_model ! 1))
   \<and> build_and_solve (\<lambda>m. Some ex_clash_solution) ex_rooms ex_instructors ex_clash_instances
        ex_clash_params = Inr (SCHEDULE ex_clash_schedule)
   \<and> \<not> no_overlap (start_subslot_index (ex_clash_schedule ! 0)) (length_subslots (ex_clash_schedule ! 0))
         (start_subslot_index (ex_clash_schedule ! 1)) (length_subslots (ex_clash_schedule ! 1))"
proof (intro conjI impI)
  show "map (\<lambda>i. (instance_id i, i_group_id i, i_section_id i)) ex_clash_instances
     = [(''C2_G1_LEC'', Some ''G1'', None), (''C2_S1_TUT'', None, Some ''S1'')]"
    by code_simp
  show "s_group_id ex_s1 = ''G1''"
    by (simp add: ex_s1_def)
  show "\<not> share_students (ex_clash_instances ! 0) (ex_clash_instances ! 1)"
    by code_simp
  show "quick_feasibility_checks ex_rooms ex_instructors ex_clash_instances ex_clash_params = Inr []"
    by (rule ex_clash_checked)
  show "build_model ex_rooms ex_instructors ex_clash_instances ex_clash_params = Inr ex_clash_model"
    by (rule ex_clash_built)
  show "satisfies ex_clash_model ex_clash_solution"
    by (rule ex_clash_satisfied)
  show "build_and_solve (\<lambda>m. Some ex_clash_solution) ex_rooms ex_instructors ex_clash_instances
        ex_clash_params = Inr (SCHEDULE ex_clash_schedule)"
    by (rule ex_clash_returned)
  show "\<not> no_overlap (start_subslot_index (ex_clash_schedule ! 0)) (length_subslots (ex_clash_schedule ! 0))
         (start_subslot_index (ex_clash_schedule ! 1)) (length_subslots (ex_clash_schedule ! 1))"
    by (simp add: ex_clash_schedule_def no_overlap_def)
next
  assume "satisfies ex_clash_model sol"
  from ex_clash_starts [OF this]
  show "\<not> no_overlap (sol_start sol ! 0) (m_needed ex_clash_model ! 0)
            (sol_start sol ! 1) (m_needed ex_clash_model ! 1)"
    by (auto simp: no_overlap_def ex_clash_model_def)
qed

theorem lecture_tutorial_overlap_witness:
  "satisfies ex_clash_model ex_clash_solution
   \<and> \<not> no_overlap (sol_start ex_clash_solution ! 0) (m_needed ex_clash_model ! 0)
         (sol_start ex_clash_solution ! 1) (m_needed ex_clash_model ! 1)"
proof -
  note T = lecture_tutorial_overlap [where sol = ex_clash_solution]
  from T have s: "satisfies ex_clash_model ex_clash_solution"
    by (elim conjE)
  from T [THEN conjunct2, THEN conjunct2, THEN conjunct2, THEN conjunct2, THEN conjunct2,
      THEN conjunct2, THEN conjunct1, rule_format, OF s]
  have "\<not> no_overlap (sol_start ex_clash_solution ! 0) (m_needed ex_clash_model ! 0)
         (sol_start ex_clash_solution ! 1) (m_needed ex_clash_model ! 1)" .
  with s show ?thesis ..
qed

end
